theory Spec2Isabelle
  imports Complex_Main "HOL-Library.AList" "HOL-Library.Log_Nat"
begin

section \<open>Numbers\<close>

text \<open>
  A TypeScript \<open>number\<close> is an IEEE 754 double. \<open>jsnum\<close> holds the finite doubles as
  the reals they denote (\<open>Fin 0\<close> is positive zero), negative zero, the two infinities
  and \<open>NaN\<close>. Every arithmetic operation computes the exact result and rounds it to the
  nearest double, ties to the even significand, as the hardware does.
\<close>

datatype jsnum = Fin real | NZero | PInf | NInf | NaN

text \<open>\<open>expo y\<close> is the binary exponent of a positive real: \<open>2^e \<le> y < 2^(e+1)\<close>.\<close>

definition expo :: "real \<Rightarrow> int" where
  "expo y = (if y \<ge> 1 then bitlen \<lfloor>y\<rfloor> - 1 else - bitlen (\<lceil>1 / y\<rceil> - 1))"

definition round_half_even :: "real \<Rightarrow> int" where
  "round_half_even q =
     (let f = \<lfloor>q\<rfloor>; d = q - of_int f
      in if d < 1 / 2 then f else if d > 1 / 2 then f + 1
         else if even f then f else f + 1)"

text \<open>
  \<open>fl x\<close> rounds a real to a double: the significand has 53 bits, the unit in the last
  place is never below \<open>2^-1074\<close> (subnormal numbers), a result of magnitude \<open>2^1024\<close> or
  more is an infinity, and a negative number that rounds to zero gives negative zero. A
  decimal literal of the source denotes \<open>fl\<close> of the decimal.
\<close>

definition fl :: "real \<Rightarrow> jsnum" where
  "fl x =
     (if x = 0 then Fin 0
      else
        (let p = max (expo \<bar>x\<bar> - 52) (- 1074);
             r = of_int (round_half_even (x / 2 powi p)) * 2 powi p
         in if r \<ge> 2 ^ 1024 then PInf
            else if r \<le> - (2 ^ 1024) then NInf
            else if r = 0 \<and> x < 0 then NZero
            else Fin r))"

fun val :: "jsnum \<Rightarrow> real" where
  "val (Fin x) = x"
| "val _ = 0"

fun is_inf :: "jsnum \<Rightarrow> bool" where
  "is_inf PInf = True"
| "is_inf NInf = True"
| "is_inf _ = False"

fun is_zero :: "jsnum \<Rightarrow> bool" where
  "is_zero (Fin x) = (x = 0)"
| "is_zero NZero = True"
| "is_zero _ = False"

text \<open>The sign bit.\<close>

fun neg :: "jsnum \<Rightarrow> bool" where
  "neg (Fin x) = (x < 0)"
| "neg NZero = True"
| "neg NInf = True"
| "neg _ = False"

definition signed_zero :: "bool \<Rightarrow> jsnum" where
  "signed_zero s = (if s then NZero else Fin 0)"

definition signed_inf :: "bool \<Rightarrow> jsnum" where
  "signed_inf s = (if s then NInf else PInf)"

fun jneg :: "jsnum \<Rightarrow> jsnum" where
  "jneg (Fin x) = (if x = 0 then NZero else Fin (- x))"
| "jneg NZero = Fin 0"
| "jneg PInf = NInf"
| "jneg NInf = PInf"
| "jneg NaN = NaN"

definition jadd :: "jsnum \<Rightarrow> jsnum \<Rightarrow> jsnum" where
  "jadd a b =
     (if a = NaN \<or> b = NaN then NaN
      else if is_inf a then (if is_inf b \<and> a \<noteq> b then NaN else a)
      else if is_inf b then b
      else if is_zero a \<and> is_zero b then (if a = NZero \<and> b = NZero then NZero else Fin 0)
      else if val a + val b = 0 then Fin 0
      else fl (val a + val b))"

definition jsub :: "jsnum \<Rightarrow> jsnum \<Rightarrow> jsnum" where
  "jsub a b = jadd a (jneg b)"

definition jmul :: "jsnum \<Rightarrow> jsnum \<Rightarrow> jsnum" where
  "jmul a b =
     (if a = NaN \<or> b = NaN then NaN
      else if (is_inf a \<and> is_zero b) \<or> (is_zero a \<and> is_inf b) then NaN
      else if is_inf a \<or> is_inf b then signed_inf (neg a \<noteq> neg b)
      else if val a * val b = 0 then signed_zero (neg a \<noteq> neg b)
      else fl (val a * val b))"

definition jdiv :: "jsnum \<Rightarrow> jsnum \<Rightarrow> jsnum" where
  "jdiv a b =
     (if a = NaN \<or> b = NaN then NaN
      else if is_inf a \<and> is_inf b then NaN
      else if is_zero a \<and> is_zero b then NaN
      else if is_inf a \<or> is_zero b then signed_inf (neg a \<noteq> neg b)
      else if is_inf b \<or> is_zero a then signed_zero (neg a \<noteq> neg b)
      else fl (val a / val b))"

text \<open>
  The comparisons \<open><\<close> and \<open><=\<close>; a comparison with \<open>NaN\<close> is false and the two zeros
  are equal. \<open>a > b\<close> is \<open>b < a\<close> and \<open>a >= b\<close> is \<open>b <= a\<close>.
\<close>

fun jlt :: "jsnum \<Rightarrow> jsnum \<Rightarrow> bool" where
  "jlt NaN _ = False"
| "jlt _ NaN = False"
| "jlt PInf _ = False"
| "jlt _ PInf = True"
| "jlt _ NInf = False"
| "jlt NInf _ = True"
| "jlt a b = (val a < val b)"

fun jle :: "jsnum \<Rightarrow> jsnum \<Rightarrow> bool" where
  "jle NaN _ = False"
| "jle _ NaN = False"
| "jle _ PInf = True"
| "jle PInf _ = False"
| "jle NInf _ = True"
| "jle _ NInf = False"
| "jle a b = (val a \<le> val b)"

definition jgt :: "jsnum \<Rightarrow> jsnum \<Rightarrow> bool" where
  "jgt a b = jlt b a"

definition jge :: "jsnum \<Rightarrow> jsnum \<Rightarrow> bool" where
  "jge a b = jle b a"

text \<open>\<open>Math.min\<close>, \<open>Math.abs\<close> and \<open>Math.floor\<close>.\<close>

definition jmin :: "jsnum \<Rightarrow> jsnum \<Rightarrow> jsnum" where
  "jmin a b =
     (if a = NaN \<or> b = NaN then NaN
      else if jlt a b then a
      else if jlt b a then b
      else if a = NZero then a else b)"

fun jabs :: "jsnum \<Rightarrow> jsnum" where
  "jabs (Fin x) = Fin \<bar>x\<bar>"
| "jabs NZero = Fin 0"
| "jabs PInf = PInf"
| "jabs NInf = PInf"
| "jabs NaN = NaN"

fun jfloor :: "jsnum \<Rightarrow> jsnum" where
  "jfloor (Fin x) = Fin (of_int \<lfloor>x\<rfloor>)"
| "jfloor a = a"

section \<open>Configuration and shared data types\<close>

text \<open>
  Counters that start at zero and are only incremented are naturals, and millisecond
  timestamps are integers. A JavaScript \<open>Map\<close> iterates in insertion order and \<open>set\<close> on
  an existing key keeps the key's place, so a \<open>Map\<close> is an association list maintained
  with \<open>AList.update\<close> and \<open>AList.delete\<close> and read with \<open>map_of\<close>. Logging and the
  writes of \<open>saveState\<close> to disk leave the in-memory state untouched and are left out.
\<close>

record config =
  minProfitThreshold :: jsnum
  maxPositionSize :: jsnum
  maxTotalExposure :: jsnum
  defaultOrderSize :: jsnum
  minCertaintyPrice :: jsnum
  maxBuyPrice :: jsnum
  dailyLossLimit :: jsnum
  maxPositionsPerMarket :: jsnum

text \<open>The values \<open>config.ts\<close> takes when no environment variable overrides them.\<close>

definition default_config :: config where
  "default_config =
     \<lparr> minProfitThreshold = fl 0.005, maxPositionSize = Fin 500,
       maxTotalExposure = Fin 5000, defaultOrderSize = Fin 100,
       minCertaintyPrice = fl 0.98, maxBuyPrice = fl 0.995,
       dailyLossLimit = Fin 500, maxPositionsPerMarket = Fin 1 \<rparr>"

datatype PositionStatus = OPEN | PENDING_RESOLUTION | RESOLVED_WIN | RESOLVED_LOSS

datatype TradeStatus = PENDING | MATCHED | CONFIRMED | FAILED

datatype Side = BUY | SELL

record Opportunity =
  o_marketId :: string
  o_tokenId :: string
  o_outcome :: string
  o_currentPrice :: jsnum
  o_expectedProfit :: jsnum
  o_confidence :: jsnum
  o_timestamp :: int

record Position =
  p_id :: string
  p_marketId :: string
  p_tokenId :: string
  p_outcome :: string
  p_entryPrice :: jsnum
  p_size :: jsnum
  p_timestamp :: int
  p_status :: PositionStatus

record Trade =
  t_id :: string
  t_marketId :: string
  t_tokenId :: string
  t_side :: Side
  t_price :: jsnum
  t_size :: jsnum
  t_timestamp :: int
  t_orderId :: "string option"
  t_status :: TradeStatus

record TradingStats =
  totalTrades :: nat
  winningTrades :: nat
  losingTrades :: nat
  totalProfit :: jsnum
  totalLoss :: jsnum
  winRate :: jsnum
  averageProfit :: jsnum
  largestWin :: jsnum
  largestLoss :: jsnum

section \<open>Risk and position ledger (PositionManager)\<close>

record ledger =
  positions :: "(string \<times> Position) list"
  stats :: TradingStats
  dailyPnL :: jsnum
  dailyStartDate :: string

datatype ledger_event = position_opened Position | position_resolved Position jsnum

definition initial_stats :: TradingStats where
  "initial_stats =
     \<lparr> totalTrades = 0, winningTrades = 0, losingTrades = 0, totalProfit = Fin 0,
       totalLoss = Fin 0, winRate = Fin 0, averageProfit = Fin 0, largestWin = Fin 0,
       largestLoss = Fin 0 \<rparr>"

text \<open>The field initialisers of the class; \<open>today\<close> is \<open>new Date().toDateString()\<close>.\<close>

definition initial_ledger :: "string \<Rightarrow> ledger" where
  "initial_ledger today =
     \<lparr> positions = [], stats = initial_stats, dailyPnL = Fin 0, dailyStartDate = today \<rparr>"

definition checkDailyReset :: "string \<Rightarrow> ledger \<Rightarrow> ledger" where
  "checkDailyReset today st =
     (if today \<noteq> dailyStartDate st
      then st\<lparr>dailyPnL := Fin 0, dailyStartDate := today\<rparr>
      else st)"

definition addPosition :: "string \<Rightarrow> ledger \<Rightarrow> Trade \<Rightarrow> ledger \<times> Position \<times> ledger_event list" where
  "addPosition today st0 trade =
     (let st = checkDailyReset today st0;
          position = \<lparr> p_id = t_id trade, p_marketId = t_marketId trade,
                       p_tokenId = t_tokenId trade, p_outcome = '''',
                       p_entryPrice = t_price trade, p_size = t_size trade,
                       p_timestamp = t_timestamp trade, p_status = OPEN \<rparr>;
          st' = st\<lparr> positions := AList.update (p_id position) position (positions st),
                    stats := (stats st)\<lparr>totalTrades := totalTrades (stats st) + 1\<rparr> \<rparr>
      in (st', position, [position_opened position]))"

text \<open>
  \<open>resolvePosition\<close> mutates the position object held by the map, so the entry under
  \<open>positionId\<close> is replaced by the updated record. The result is the new ledger and the
  events emitted (\<open>position_resolved\<close> carries the position and its \<open>pnl\<close>).
\<close>

definition resolvePosition :: "ledger \<Rightarrow> string \<Rightarrow> jsnum \<Rightarrow> bool \<Rightarrow> ledger \<times> ledger_event list" where
  "resolvePosition st positionId resolvedPrice isWinner =
     (case map_of (positions st) positionId of
        None \<Rightarrow> (st, [])
      | Some position \<Rightarrow>
          (let cost = jmul (p_entryPrice position) (p_size position);
               payout = (if isWinner then p_size position else Fin 0);
               pnl = jsub payout cost;
               s = stats st;
               position' = (if isWinner then position\<lparr>p_status := RESOLVED_WIN\<rparr>
                            else position\<lparr>p_status := RESOLVED_LOSS\<rparr>);
               s1 = (if isWinner
                     then s\<lparr> winningTrades := winningTrades s + 1,
                             totalProfit := jadd (totalProfit s) pnl,
                             largestWin := (if jgt pnl (largestWin s) then pnl
                                            else largestWin s) \<rparr>
                     else s\<lparr> losingTrades := losingTrades s + 1,
                             totalLoss := jadd (totalLoss s) (jabs pnl),
                             largestLoss := (if jgt (jabs pnl) (largestLoss s) then jabs pnl
                                             else largestLoss s) \<rparr>);
               totalResolved = winningTrades s1 + losingTrades s1;
               s2 = s1\<lparr> winRate := (if totalResolved > 0
                                       then jmul (jdiv (Fin (real (winningTrades s1)))
                                                       (Fin (real totalResolved))) (Fin 100)
                                       else Fin 0) \<rparr>;
               s3 = s2\<lparr> averageProfit := (if totalResolved > 0
                                             then jdiv (jsub (totalProfit s2) (totalLoss s2))
                                                       (Fin (real totalResolved))
                                             else Fin 0) \<rparr>;
               st' = st\<lparr> positions := AList.update positionId position' (positions st),
                         stats := s3,
                         dailyPnL := jadd (dailyPnL st) pnl \<rparr>
           in (st', [position_resolved position' pnl])))"

definition getOpenPositions :: "ledger \<Rightarrow> Position list" where
  "getOpenPositions st = filter (\<lambda>p. p_status p = OPEN) (map snd (positions st))"

definition getTotalExposure :: "ledger \<Rightarrow> jsnum" where
  "getTotalExposure st =
     foldl (\<lambda>sum p. jadd sum (jmul (p_entryPrice p) (p_size p))) (Fin 0)
       (getOpenPositions st)"

text \<open>
  \<open>canOpenNewPosition\<close> only reads the ledger; it is modelled as returning its verdict
  together with the ledger it leaves behind, so that the absence of writes can be stated.
  It compares the stored \<open>dailyPnL\<close> and does not call \<open>checkDailyReset\<close>.
\<close>

definition canOpenNewPosition :: "config \<Rightarrow> ledger \<Rightarrow> jsnum \<Rightarrow> jsnum \<Rightarrow> bool \<times> ledger" where
  "canOpenNewPosition cfg st sz price =
     (let newExposure = jadd (getTotalExposure st) (jmul sz price)
      in if jgt newExposure (maxTotalExposure cfg) then (False, st)
         else if jlt (dailyPnL st) (jneg (dailyLossLimit cfg)) then (False, st)
         else (True, st))"

text \<open>\<open>getDailyPnL\<close> runs the daily reset and then reads the daily P&L.\<close>

definition getDailyPnL :: "string \<Rightarrow> ledger \<Rightarrow> jsnum \<times> ledger" where
  "getDailyPnL today st = (let st' = checkDailyReset today st in (dailyPnL st', st'))"

definition getPositionsByMarket :: "ledger \<Rightarrow> string \<Rightarrow> Position list" where
  "getPositionsByMarket st marketId =
     filter (\<lambda>p. p_marketId p = marketId \<and> p_status p = OPEN) (map snd (positions st))"

section \<open>Order executor (OrderExecutor)\<close>

text \<open>
  What the executor reads from outside itself when it handles one opportunity: whether the
  venue client is authenticated, the venue's answer to an order (\<open>Throws\<close> when
  \<open>placeOrder\<close> rejects), the identifier \<open>generateTradeId\<close> produces and the clock.
\<close>

datatype OrderType = GTC | GTD | FOK

record OrderRequest =
  r_tokenId :: string
  r_price :: jsnum
  r_size :: jsnum
  r_side :: Side
  r_orderType :: OrderType

record OrderResponse =
  success :: bool
  orderId :: "string option"
  errorMsg :: "string option"

datatype order_result = Responds OrderResponse | Throws

record exec_env =
  canTrade :: bool
  placeOrder :: "OrderRequest \<Rightarrow> order_result"
  generateTradeId :: string
  now :: int

record executor =
  isEnabled :: bool
  executionQueue :: "Opportunity list"
  isProcessing :: bool

datatype executor_event = trade_executed Trade | trade_failed Trade

definition initial_executor :: executor where
  "initial_executor = \<lparr> isEnabled = True, executionQueue = [], isProcessing = False \<rparr>"

definition calculateOrderSize :: "config \<Rightarrow> Opportunity \<Rightarrow> jsnum" where
  "calculateOrderSize cfg opportunity =
     (let orderSize = defaultOrderSize cfg;
          profitMultiplier = jdiv (o_expectedProfit opportunity) (minProfitThreshold cfg);
          orderSize1 = (if jgt profitMultiplier (Fin 1)
                        then jmul orderSize (jmin profitMultiplier (Fin 2))
                        else orderSize);
          orderSize2 = jmin orderSize1 (maxPositionSize cfg)
      in jdiv (jfloor (jmul orderSize2 (Fin 100))) (Fin 100))"

definition executeOpportunity ::
  "config \<Rightarrow> exec_env \<Rightarrow> executor \<Rightarrow> Opportunity \<Rightarrow> Trade option \<times> executor_event list" where
  "executeOpportunity cfg env ex opportunity =
     (if \<not> isEnabled ex then (None, [])
      else if \<not> canTrade env then (None, [])
      else
        (let orderSize = calculateOrderSize cfg opportunity
         in if jle orderSize (Fin 0) then (None, [])
            else
              (let trade = \<lparr> t_id = generateTradeId env,
                               t_marketId = o_marketId opportunity,
                               t_tokenId = o_tokenId opportunity,
                               t_side = BUY,
                               t_price = o_currentPrice opportunity,
                               t_size = orderSize,
                               t_timestamp = now env,
                               t_orderId = None,
                               t_status = PENDING \<rparr>;
                   orderRequest = \<lparr> r_tokenId = o_tokenId opportunity,
                                      r_price = o_currentPrice opportunity,
                                      r_size = orderSize,
                                      r_side = BUY,
                                      r_orderType = FOK \<rparr>
               in case placeOrder env orderRequest of
                    Responds response \<Rightarrow>
                      (if success response
                       then (let trade' = trade\<lparr> t_orderId := orderId response,
                                                   t_status := MATCHED \<rparr>
                             in (Some trade', [trade_executed trade']))
                       else (let trade' = trade\<lparr> t_status := FAILED \<rparr>
                             in (Some trade', [trade_failed trade'])))
                  | Throws \<Rightarrow>
                      (let trade' = trade\<lparr> t_status := FAILED \<rparr>
                       in (Some trade', [trade_failed trade'])))))"

text \<open>
  The queue worker. \<open>envs i\<close> is the environment at the \<open>i\<close>-th dequeue of a drain; its
  clock is the \<open>Date.now()\<close> of the staleness test. Each dequeue is recorded: an expired
  opportunity is skipped, any other is handed to \<open>executeOpportunity\<close>. Opportunities
  pushed while the worker waits are served by the same loop, so the queue drained is the
  whole sequence the loop shifts out.
\<close>

datatype queue_step = Expired Opportunity | Executed Opportunity "Trade option"

fun drainQueue ::
  "config \<Rightarrow> (nat \<Rightarrow> exec_env) \<Rightarrow> executor \<Rightarrow> nat \<Rightarrow> Opportunity list \<Rightarrow> queue_step list" where
  "drainQueue cfg envs ex i [] = []"
| "drainQueue cfg envs ex i (opportunity # queue) =
     (if now (envs i) - o_timestamp opportunity > 5000
      then Expired opportunity # drainQueue cfg envs ex (Suc i) queue
      else Executed opportunity (fst (executeOpportunity cfg (envs i) ex opportunity))
             # drainQueue cfg envs ex (Suc i) queue)"

definition processQueue ::
  "config \<Rightarrow> (nat \<Rightarrow> exec_env) \<Rightarrow> executor \<Rightarrow> executor \<times> queue_step list" where
  "processQueue cfg envs ex =
     (if isProcessing ex \<or> length (executionQueue ex) = 0 then (ex, [])
      else (ex\<lparr> executionQueue := [], isProcessing := False \<rparr>,
            drainQueue cfg envs (ex\<lparr>isProcessing := True\<rparr>) 0 (executionQueue ex)))"

definition queueOpportunity ::
  "config \<Rightarrow> (nat \<Rightarrow> exec_env) \<Rightarrow> executor \<Rightarrow> Opportunity \<Rightarrow> executor \<times> queue_step list" where
  "queueOpportunity cfg envs ex opportunity =
     processQueue cfg envs (ex\<lparr> executionQueue := executionQueue ex @ [opportunity] \<rparr>)"

section \<open>The opportunity handler of the bot (index.ts)\<close>

text \<open>
  The handler registered for the detector's \<open>opportunity\<close> event: the risk gate is asked
  with \<open>config.defaultOrderSize\<close>, then the per-market limit is checked, then the executor
  sizes and submits the order and a matched trade is entered in the ledger. \<open>today\<close> is
  the date string \<open>addPosition\<close> reads for its daily reset.
\<close>

definition onOpportunity ::
  "config \<Rightarrow> exec_env \<Rightarrow> string \<Rightarrow> executor \<Rightarrow> ledger \<Rightarrow> Opportunity \<Rightarrow> ledger" where
  "onOpportunity cfg env today ex st opportunity =
     (if \<not> fst (canOpenNewPosition cfg st (defaultOrderSize cfg) (o_currentPrice opportunity))
      then st
      else
        (let existingPositions = getPositionsByMarket st (o_marketId opportunity)
         in if jge (Fin (real (length existingPositions))) (maxPositionsPerMarket cfg) then st
            else if canTrade env
            then (case fst (executeOpportunity cfg env ex opportunity) of
                    Some trade \<Rightarrow>
                      (if t_status trade = MATCHED then fst (addPosition today st trade)
                       else st)
                  | None \<Rightarrow> st)
            else st))"

text \<open>A run of the bot: the handler applied to each opportunity in turn.\<close>

fun onOpportunities ::
  "config \<Rightarrow> string \<Rightarrow> executor \<Rightarrow> ledger \<Rightarrow> (exec_env \<times> Opportunity) list \<Rightarrow> ledger" where
  "onOpportunities cfg today ex st [] = st"
| "onOpportunities cfg today ex st ((env, opportunity) # rest) =
     onOpportunities cfg today ex (onOpportunity cfg env today ex st opportunity) rest"

section \<open>Market scanner (MarketScanner)\<close>

record Token =
  tk_tokenId :: string
  tk_outcome :: string
  tk_price :: jsnum
  tk_winner :: bool

record Market =
  m_id :: string
  m_question :: string
  m_conditionId :: string
  m_endDate :: string
  m_active :: bool
  m_closed :: bool
  m_archived :: bool
  m_tokens :: "Token list"

text \<open>
  A watched market is the spread copy of the fetched market together with \<open>addedAt\<close> and
  \<open>highPriceToken\<close>. The fields of \<open>Market\<close> the scanner and the detector never read
  (slug, resolution source, liquidity, volume, outcome lists) are left out.
\<close>

record WatchedMarket =
  wm_market :: Market
  addedAt :: int
  highPriceToken :: "Token option"

type_synonym watchlist = "(string \<times> WatchedMarket) list"

text \<open>
  \<open>getTime\<close> stands for \<open>new Date(s).getTime()\<close>: the whole milliseconds of a date
  string, or \<open>None\<close> where the source gets \<open>NaN\<close> (an invalid date). \<open>nowMs\<close> is the
  \<open>getTime()\<close> of the clock reading \<open>now\<close>.
\<close>

fun filterEligibleMarkets ::
  "config \<Rightarrow> (string \<Rightarrow> int option) \<Rightarrow> int \<Rightarrow> Market list \<Rightarrow> Market list" where
  "filterEligibleMarkets cfg getTime nowMs [] = []"
| "filterEligibleMarkets cfg getTime nowMs (market # markets) =
     (if \<not> m_active market \<or> m_closed market \<or> m_archived market
      then filterEligibleMarkets cfg getTime nowMs markets
      else
        (let endTime = (case getTime (m_endDate market) of
                          None \<Rightarrow> NaN
                        | Some endMs \<Rightarrow> Fin (of_int endMs));
             hoursUntilEnd = jdiv (jsub endTime (Fin (of_int nowMs)))
                                  (jmul (jmul (Fin 1000) (Fin 60)) (Fin 60))
         in (if jgt hoursUntilEnd (Fin 0) \<and> jle hoursUntilEnd (Fin 24)
                \<and> list_ex (\<lambda>t. jge (tk_price t) (minCertaintyPrice cfg)) (m_tokens market)
             then [market] else [])
          @ (if jgt hoursUntilEnd (Fin 24)
                \<and> list_ex (\<lambda>t. jge (tk_price t) (fl 0.99)) (m_tokens market)
             then [market] else [])
          @ filterEligibleMarkets cfg getTime nowMs markets))"

definition findHighPriceToken :: "Market \<Rightarrow> Token option" where
  "findHighPriceToken market =
     snd (foldl (\<lambda>(highestPrice, highestToken) token.
                   if jgt (tk_price token) highestPrice then (tk_price token, Some token)
                   else (highestPrice, highestToken))
                (Fin 0, None) (m_tokens market))"

text \<open>The first loop of \<open>scan\<close>: an eligible market not yet watched is added.\<close>

fun addEligible :: "int \<Rightarrow> watchlist \<Rightarrow> Market list \<Rightarrow> watchlist" where
  "addEligible nowMs watched [] = watched"
| "addEligible nowMs watched (market # eligibleMarkets) =
     (if map_of watched (m_id market) = None
      then addEligible nowMs
             (AList.update (m_id market)
                \<lparr> wm_market = market, addedAt = nowMs,
                  highPriceToken = findHighPriceToken market \<rparr> watched)
             eligibleMarkets
      else addEligible nowMs watched eligibleMarkets)"

text \<open>
  The second loop of \<open>scan\<close> walks the entries of the map and deletes each whose key no
  eligible market has; \<open>entries\<close> is the sequence the iteration visits.
\<close>

fun removeIneligible :: "Market list \<Rightarrow> watchlist \<Rightarrow> watchlist \<Rightarrow> watchlist" where
  "removeIneligible eligibleMarkets [] watched = watched"
| "removeIneligible eligibleMarkets ((ident, market) # entries) watched =
     (if List.find (\<lambda>m. m_id m = ident) eligibleMarkets = None
      then removeIneligible eligibleMarkets entries (AList.delete ident watched)
      else removeIneligible eligibleMarkets entries watched)"

text \<open>
  \<open>scan\<close>: \<open>fetched\<close> is the result of \<open>clobService.getMarkets()\<close>, \<open>None\<close> when it
  throws (the \<open>catch\<close> then leaves the watchlist as it is). One clock reading stands for
  the \<open>new Date()\<close> of the filter and of \<open>addedAt\<close>.
\<close>

definition scan ::
  "config \<Rightarrow> (string \<Rightarrow> int option) \<Rightarrow> int \<Rightarrow> Market list option \<Rightarrow> watchlist \<Rightarrow> watchlist" where
  "scan cfg getTime nowMs fetched watchedMarkets =
     (case fetched of
        None \<Rightarrow> watchedMarkets
      | Some markets \<Rightarrow>
          (let eligibleMarkets = filterEligibleMarkets cfg getTime nowMs markets;
               added = addEligible nowMs watchedMarkets eligibleMarkets
           in removeIneligible eligibleMarkets added added))"

text \<open>
  The eligibility rule in the words of the specification, for one market: active, not
  closed, not archived, and either a time to end in (0, 24h] with some token priced at
  the certainty threshold or more, or a time to end beyond 24h with some token priced at
  0.99 or more. Times are in milliseconds; 24h is 86400000 ms.
\<close>

definition eligible_spec :: "config \<Rightarrow> (string \<Rightarrow> int option) \<Rightarrow> int \<Rightarrow> Market \<Rightarrow> bool" where
  "eligible_spec cfg getTime nowMs market =
     (m_active market \<and> \<not> m_closed market \<and> \<not> m_archived market \<and>
      (case getTime (m_endDate market) of
         None \<Rightarrow> False
       | Some endMs \<Rightarrow>
           (0 < endMs - nowMs \<and> endMs - nowMs \<le> 86400000
              \<and> (\<exists>t \<in> set (m_tokens market). jge (tk_price t) (minCertaintyPrice cfg)))
           \<or> (endMs - nowMs > 86400000
              \<and> (\<exists>t \<in> set (m_tokens market). jge (tk_price t) (fl 0.99)))))"

section \<open>Opportunity detector (OpportunityDetector)\<close>

record PriceLevel =
  pl_price :: string
  pl_size :: string

record OrderBook =
  ob_market :: string
  ob_assetId :: string
  ob_hash :: string
  ob_timestamp :: string
  ob_bids :: "PriceLevel list"
  ob_asks :: "PriceLevel list"
  ob_minOrderSize :: string
  ob_tickSize :: string

text \<open>
  The lookup loop of \<open>analyzeOpportunity\<close>: the watchlist is walked in insertion order
  and the first market holding a token with the given id supplies \<open>marketId\<close> and
  \<open>outcome\<close>; both keep their initial value, the empty string, when no market has one.
\<close>

fun findMarketInfo :: "watchlist \<Rightarrow> string \<Rightarrow> string \<times> string" where
  "findMarketInfo [] tokenId = ('''', '''')"
| "findMarketInfo ((ident, market) # markets) tokenId =
     (case List.find (\<lambda>t. tk_tokenId t = tokenId) (m_tokens (wm_market market)) of
        Some token \<Rightarrow> (ident, tk_outcome token)
      | None \<Rightarrow> findMarketInfo markets tokenId)"

text \<open>
  \<open>parseFloat\<close> is the JavaScript builtin, taken as a parameter: it gives the number a
  string denotes, which may be \<open>NaN\<close> or an infinity. The function returns the
  opportunity emitted, if any.
\<close>

definition analyzeOpportunity ::
  "(string \<Rightarrow> jsnum) \<Rightarrow> config \<Rightarrow> watchlist \<Rightarrow> int \<Rightarrow> string \<Rightarrow> OrderBook
     \<Rightarrow> Opportunity option" where
  "analyzeOpportunity parseFloat cfg markets nowMs tokenId orderBook =
     (case ob_asks orderBook of
        [] \<Rightarrow> None
      | ask # _ \<Rightarrow>
          (let bestAsk = parseFloat (pl_price ask);
               askSize = parseFloat (pl_size ask)
           in if jge bestAsk (minCertaintyPrice cfg) \<and> jle bestAsk (maxBuyPrice cfg)
                 \<and> jge askSize (parseFloat (ob_minOrderSize orderBook))
              then
                (let expectedProfit =
                       jmul (jsub (Fin 1) bestAsk) (jmin askSize (maxPositionSize cfg))
                 in if jge expectedProfit (minProfitThreshold cfg)
                    then
                      (let (marketId, outcome) = findMarketInfo markets tokenId
                       in Some \<lparr> o_marketId = marketId, o_tokenId = tokenId,
                                 o_outcome = outcome, o_currentPrice = bestAsk,
                                 o_expectedProfit = expectedProfit,
                                 o_confidence = jmul bestAsk (Fin 100),
                                 o_timestamp = nowMs \<rparr>)
                    else None)
              else None))"

text \<open>
  A \<open>book\<close> message of the feed is untyped in the source; a field it may lack is an
  option. \<open>orElse x d\<close> is \<open>x || d\<close> for a string field: the default replaces an absent or
  empty value.
\<close>

record BookMessage =
  bm_asset_id :: string
  bm_market :: "string option"
  bm_condition_id :: "string option"
  bm_hash :: "string option"
  bm_timestamp :: "string option"
  bm_bids :: "PriceLevel list option"
  bm_asks :: "PriceLevel list option"
  bm_min_tick_size :: "string option"
  bm_tick_size :: "string option"

definition orElse :: "string option \<Rightarrow> string \<Rightarrow> string" where
  "orElse x d = (case x of None \<Rightarrow> d | Some s \<Rightarrow> if s = '''' then d else s)"

definition handleBookUpdate ::
  "(string \<Rightarrow> jsnum) \<Rightarrow> config \<Rightarrow> watchlist \<Rightarrow> int \<Rightarrow> string \<Rightarrow> BookMessage
     \<Rightarrow> Opportunity option" where
  "handleBookUpdate parseFloat cfg markets nowMs nowIso data =
     (case bm_asks data of
        None \<Rightarrow> None
      | Some [] \<Rightarrow> None
      | Some (ask # asks) \<Rightarrow>
          (let bestAsk = parseFloat (pl_price ask)
           in if jge bestAsk (minCertaintyPrice cfg) \<and> jle bestAsk (maxBuyPrice cfg)
              then analyzeOpportunity parseFloat cfg markets nowMs (bm_asset_id data)
                     \<lparr> ob_market = orElse (bm_market data) (orElse (bm_condition_id data) ''''),
                       ob_assetId = bm_asset_id data,
                       ob_hash = orElse (bm_hash data) '''',
                       ob_timestamp = orElse (bm_timestamp data) nowIso,
                       ob_bids = (case bm_bids data of None \<Rightarrow> [] | Some bids \<Rightarrow> bids),
                       ob_asks = ask # asks,
                       ob_minOrderSize = orElse (bm_min_tick_size data) ''1'',
                       ob_tickSize = orElse (bm_tick_size data) ''0.01'' \<rparr>
              else None))"

text \<open>
  The property the specification asks of an emitted opportunity: its token id is the id
  of a token of some market of the watchlist.
\<close>

definition references_watched :: "watchlist \<Rightarrow> Opportunity \<Rightarrow> bool" where
  "references_watched markets opp =
     (\<exists>(ident, market) \<in> set markets.
        \<exists>t \<in> set (m_tokens (wm_market market)). tk_tokenId t = o_tokenId opp)"

section \<open>Feed reconnection (PolymarketWebSocket)\<close>

record feed =
  reconnectAttempts :: nat
  maxReconnectAttempts :: nat
  reconnectDelay :: nat
  isConnecting :: bool

datatype feed_action = Emit string | Wait nat | Connect

text \<open>The field initialisers of the class.\<close>

definition initial_feed :: feed where
  "initial_feed =
     \<lparr> reconnectAttempts = 0, maxReconnectAttempts = 10, reconnectDelay = 1000,
       isConnecting = False \<rparr>"

text \<open>
  \<open>attemptReconnect\<close> returns the feed and what it does in order: the signal it emits,
  or the delay it sleeps (in milliseconds) followed by the call of \<open>connect\<close>.
\<close>

definition attemptReconnect :: "feed \<Rightarrow> feed \<times> feed_action list" where
  "attemptReconnect ws =
     (if reconnectAttempts ws \<ge> maxReconnectAttempts ws
      then (ws, [Emit ''max_reconnect_failed''])
      else
        (let ws' = ws\<lparr> reconnectAttempts := reconnectAttempts ws + 1 \<rparr>;
             delay = reconnectDelay ws' * 2 ^ (reconnectAttempts ws' - 1)
         in (ws', [Wait delay, Connect])))"

text \<open>The handler of the socket's \<open>close\<close> event, and of its \<open>open\<close> event.\<close>

definition onClose :: "feed \<Rightarrow> feed \<times> feed_action list" where
  "onClose ws =
     (let ws1 = ws\<lparr> isConnecting := False \<rparr>;
          (ws2, actions) = attemptReconnect ws1
      in (ws2, Emit ''disconnected'' # actions))"

definition onOpen :: "feed \<Rightarrow> feed \<times> feed_action list" where
  "onOpen ws = (ws\<lparr> reconnectAttempts := 0, isConnecting := False \<rparr>, [Emit ''connected''])"

text \<open>
  \<open>connect\<close> on a socket that is not open (as after a close): it does nothing while a
  connection is being made, and otherwise marks one as being made.
\<close>

definition connect :: "feed \<Rightarrow> feed" where
  "connect ws = (if isConnecting ws then ws else ws\<lparr> isConnecting := True \<rparr>)"

text \<open>
  One unexpected close and what follows from it: the close handler runs and, when it
  schedules a connection attempt, \<open>connect\<close> is called after the delay. A sequence of
  consecutive unexpected closes is a sequence of such rounds with no \<open>open\<close> between
  them (every attempt fails and the socket closes again).
\<close>

definition closeRound :: "feed \<Rightarrow> feed \<times> feed_action list" where
  "closeRound ws =
     (let (ws1, actions) = onClose ws
      in (if Connect \<in> set actions then connect ws1 else ws1, actions))"

fun afterCloses :: "nat \<Rightarrow> feed \<Rightarrow> feed" where
  "afterCloses 0 ws = ws"
| "afterCloses (Suc n) ws = fst (closeRound (afterCloses n ws))"

section \<open>Concrete inputs\<close>

text \<open>
  A ledger holding one open position bought at 0.98 for 100 shares, and a run of the bot
  under the default configuration: opportunities in distinct markets, each at price 0.98
  with expected profit 2, each order matched by the venue under a fresh trade id.
\<close>

definition sample_position :: Position where
  "sample_position =
     \<lparr> p_id = ''t1'', p_marketId = ''m1'', p_tokenId = ''tok1'', p_outcome = '''',
       p_entryPrice = fl 0.98, p_size = Fin 100, p_timestamp = 0, p_status = OPEN \<rparr>"

definition sample_ledger :: ledger where
  "sample_ledger =
     \<lparr> positions = [(''t1'', sample_position)],
       stats = initial_stats\<lparr>totalTrades := 1\<rparr>,
       dailyPnL = Fin 0, dailyStartDate = ''Mon Nov 02 2026'' \<rparr>"

definition sample_opp :: "nat \<Rightarrow> Opportunity" where
  "sample_opp i =
     \<lparr> o_marketId = ''market-'' @ [char_of (97 + i)],
       o_tokenId = ''token-'' @ [char_of (97 + i)],
       o_outcome = ''Yes'', o_currentPrice = fl 0.98, o_expectedProfit = Fin 2,
       o_confidence = Fin 98, o_timestamp = 1000 * int i \<rparr>"

definition sample_env :: "nat \<Rightarrow> exec_env" where
  "sample_env i =
     \<lparr> canTrade = True,
       placeOrder = (\<lambda>r. Responds \<lparr> success = True, orderId = Some ''order'', errorMsg = None \<rparr>),
       generateTradeId = ''trade-'' @ [char_of (97 + i)],
       now = 1000 * int i \<rparr>"

definition sample_run :: "nat \<Rightarrow> ledger" where
  "sample_run n =
     onOpportunities default_config ''Mon Nov 02 2026'' initial_executor
       (initial_ledger ''Mon Nov 02 2026'')
       (map (\<lambda>i. (sample_env i, sample_opp i)) [0..<n])"

text \<open>
  The ledger the run reaches after \<open>n\<close> opportunities: one open position of 200 shares
  at 0.98 for each.
\<close>

definition sample_entry :: "nat \<Rightarrow> string \<times> Position" where
  "sample_entry i =
     (generateTradeId (sample_env i),
      \<lparr> p_id = generateTradeId (sample_env i), p_marketId = o_marketId (sample_opp i),
        p_tokenId = o_tokenId (sample_opp i), p_outcome = '''',
        p_entryPrice = fl 0.98, p_size = Fin 200, p_timestamp = 1000 * int i,
        p_status = OPEN \<rparr>)"

definition sample_ledger_after :: "nat \<Rightarrow> ledger" where
  "sample_ledger_after n =
     \<lparr> positions = map sample_entry [0..<n],
       stats = initial_stats\<lparr>totalTrades := n\<rparr>,
       dailyPnL = Fin 0, dailyStartDate = ''Mon Nov 02 2026'' \<rparr>"

text \<open>
  A day of losses: the run opens three positions and each of them resolves as a loss on
  the same day.
\<close>

definition losing_day :: ledger where
  "losing_day =
     fst (resolvePosition
       (fst (resolvePosition
         (fst (resolvePosition (sample_run 3) (generateTradeId (sample_env 0)) (Fin 0) False))
         (generateTradeId (sample_env 1)) (Fin 0) False))
       (generateTradeId (sample_env 2)) (Fin 0) False)"

text \<open>
  Opportunities whose expected profit is 0.5 times and 1.1 times the default profit
  threshold, and a configuration whose profit threshold is zero.
\<close>

definition small_opp :: Opportunity where
  "small_opp = (sample_opp 0)\<lparr> o_expectedProfit := fl 0.0025 \<rparr>"

definition modest_opp :: Opportunity where
  "modest_opp = (sample_opp 0)\<lparr> o_expectedProfit := fl 0.0055 \<rparr>"

definition zero_threshold_config :: config where
  "zero_threshold_config = default_config\<lparr> minProfitThreshold := Fin 0 \<rparr>"

text \<open>
  A queue of two opportunities detected at 0 ms and 1000 ms, drained by a worker whose
  clock reads 6000 ms at both dequeues.
\<close>

definition sample_queue :: executor where
  "sample_queue = initial_executor\<lparr> executionQueue := [sample_opp 0, sample_opp 1] \<rparr>"

definition sample_clock :: "nat \<Rightarrow> exec_env" where
  "sample_clock i = (sample_env i)\<lparr> now := 6000 \<rparr>"

text \<open>
  A scan at 2026-11-02T00:00:00Z. The venue returns two active markets whose best token
  is priced 0.985: \<open>near\<close> ends in one hour, \<open>far\<close> in two days. The watchlist holds
  \<open>far\<close> from an earlier scan, when its best token was priced 0.995. \<open>sample_getTime\<close>
  gives the epoch milliseconds of the two end dates.
\<close>

definition sample_getTime :: "string \<Rightarrow> int option" where
  "sample_getTime s =
     (if s = ''2026-11-02T01:00:00Z'' then Some 1793581200000
      else if s = ''2026-11-04T00:00:00Z'' then Some 1793750400000
      else None)"

definition sample_now :: int where
  "sample_now = 1793577600000"

definition sample_tokens :: "jsnum \<Rightarrow> jsnum \<Rightarrow> Token list" where
  "sample_tokens p q =
     [\<lparr> tk_tokenId = ''tok-yes'', tk_outcome = ''Yes'', tk_price = p, tk_winner = False \<rparr>,
      \<lparr> tk_tokenId = ''tok-no'', tk_outcome = ''No'', tk_price = q, tk_winner = False \<rparr>]"

definition market_near :: Market where
  "market_near =
     \<lparr> m_id = ''near'', m_question = ''Q1'', m_conditionId = ''c1'',
       m_endDate = ''2026-11-02T01:00:00Z'', m_active = True, m_closed = False,
       m_archived = False, m_tokens = sample_tokens (fl 0.985) (fl 0.015) \<rparr>"

definition market_far :: Market where
  "market_far =
     \<lparr> m_id = ''far'', m_question = ''Q2'', m_conditionId = ''c2'',
       m_endDate = ''2026-11-04T00:00:00Z'', m_active = True, m_closed = False,
       m_archived = False, m_tokens = sample_tokens (fl 0.985) (fl 0.015) \<rparr>"

definition market_far_before :: Market where
  "market_far_before = market_far\<lparr> m_tokens := sample_tokens (fl 0.995) (fl 0.005) \<rparr>"

definition sample_watched :: watchlist where
  "sample_watched =
     [(''far'',
       \<lparr> wm_market = market_far_before, addedAt = 1793570000000,
         highPriceToken = findHighPriceToken market_far_before \<rparr>)]"

text \<open>
  A book message of the feed whose best ask is 100 shares at 0.99, the order book the
  detector builds from it, and the opportunity this ask yields: in doubles \<open>1 - 0.99\<close>
  times 100 is \<open>1 + 2^-50\<close>. \<open>thin_book\<close> has a best ask of 0.4 shares at 0.9875 and a
  minimum order size of 0.1. \<open>sample_parseFloat\<close> agrees with \<open>parseFloat\<close> on the
  strings involved.
\<close>

definition sample_parseFloat :: "string \<Rightarrow> jsnum" where
  "sample_parseFloat s =
     (if s = ''0.99'' then fl 0.99
      else if s = ''100'' then Fin 100
      else if s = ''1'' then Fin 1
      else if s = ''0.9875'' then fl 0.9875
      else if s = ''0.4'' then fl 0.4
      else if s = ''0.1'' then fl 0.1
      else if s = ''Infinity'' then PInf
      else NaN)"

definition sample_message :: "string \<Rightarrow> BookMessage" where
  "sample_message assetId =
     \<lparr> bm_asset_id = assetId, bm_market = Some ''c9'', bm_condition_id = None,
       bm_hash = None, bm_timestamp = None, bm_bids = Some [],
       bm_asks = Some [\<lparr> pl_price = ''0.99'', pl_size = ''100'' \<rparr>],
       bm_min_tick_size = None, bm_tick_size = None \<rparr>"

definition sample_book :: "string \<Rightarrow> OrderBook" where
  "sample_book assetId =
     \<lparr> ob_market = ''c9'', ob_assetId = assetId, ob_hash = '''',
       ob_timestamp = ''2026-11-02T00:00:00.000Z'', ob_bids = [],
       ob_asks = [\<lparr> pl_price = ''0.99'', pl_size = ''100'' \<rparr>],
       ob_minOrderSize = ''1'', ob_tickSize = ''0.01'' \<rparr>"

definition thin_book :: "string \<Rightarrow> OrderBook" where
  "thin_book assetId =
     (sample_book assetId)
       \<lparr> ob_asks := [\<lparr> pl_price = ''0.9875'', pl_size = ''0.4'' \<rparr>],
         ob_minOrderSize := ''0.1'' \<rparr>"

definition sample_emitted :: "string \<Rightarrow> string \<Rightarrow> string \<Rightarrow> Opportunity" where
  "sample_emitted marketId tokenId outcome =
     \<lparr> o_marketId = marketId, o_tokenId = tokenId, o_outcome = outcome,
       o_currentPrice = fl 0.99, o_expectedProfit = Fin (1 + 1 / 2 ^ 50),
       o_confidence = Fin 99, o_timestamp = sample_now \<rparr>"

section \<open>Properties of the rounding\<close>

lemma expo_bounds:
  assumes "y > 0"
  shows "2 powi (expo y) \<le> y \<and> y < 2 powi (expo y + 1)"
proof (cases "y \<ge> 1")
  case True
  let ?n = "\<lfloor>y\<rfloor>"
  from True have n: "?n > 0" by linarith
  from bitlen_bounds [OF n]
  have lo: "2 ^ nat (bitlen ?n - 1) \<le> ?n" and hi: "?n < 2 ^ nat (bitlen ?n)" by simp_all
  from n have b: "bitlen ?n \<ge> 1" by (auto simp: bitlen_alt_def)
  have "(2::real) ^ nat (bitlen ?n - 1) = real_of_int (2 ^ nat (bitlen ?n - 1))" by simp
  also have "\<dots> \<le> real_of_int ?n" using lo by (simp only: of_int_le_iff)
  also have "\<dots> \<le> y" by simp
  finally have l: "(2::real) ^ nat (bitlen ?n - 1) \<le> y" .
  from hi have "?n + 1 \<le> 2 ^ nat (bitlen ?n)" by simp
  then have "real_of_int (?n + 1) \<le> real_of_int (2 ^ nat (bitlen ?n))"
    by (simp only: of_int_le_iff)
  then have "real_of_int ?n + 1 \<le> (2::real) ^ nat (bitlen ?n)" by simp
  moreover have "y < real_of_int ?n + 1" by linarith
  ultimately have h: "y < (2::real) ^ nat (bitlen ?n)" by linarith
  from True b l h show ?thesis
    by (simp add: expo_def power_int_def)
next
  case False
  with assms have y: "0 < y" "y < 1" by simp_all
  let ?t = "1 / y"
  let ?c = "\<lceil>?t\<rceil> - 1"
  from y have t: "?t > 1" by simp
  then have c: "?c > 0" by linarith
  from bitlen_bounds [OF c]
  have lo: "2 ^ nat (bitlen ?c - 1) \<le> ?c" and hi: "?c < 2 ^ nat (bitlen ?c)" by simp_all
  from c have b: "bitlen ?c \<ge> 1" by (auto simp: bitlen_alt_def)
  have ct: "real_of_int ?c < ?t" "?t \<le> real_of_int ?c + 1" by linarith+
  have "(2::real) ^ nat (bitlen ?c - 1) = real_of_int (2 ^ nat (bitlen ?c - 1))" by simp
  also have "\<dots> \<le> real_of_int ?c" using lo by (simp only: of_int_le_iff)
  also have "\<dots> < ?t" using ct by simp
  finally have l: "(2::real) ^ nat (bitlen ?c - 1) < ?t" .
  from hi have "?c + 1 \<le> 2 ^ nat (bitlen ?c)" by simp
  then have "real_of_int (?c + 1) \<le> real_of_int (2 ^ nat (bitlen ?c))"
    by (simp only: of_int_le_iff)
  then have "real_of_int ?c + 1 \<le> (2::real) ^ nat (bitlen ?c)" by simp
  with ct have h: "?t \<le> (2::real) ^ nat (bitlen ?c)" by linarith
  have p1: "2 powi (- bitlen ?c) = 1 / (2::real) ^ nat (bitlen ?c)"
    using b by (simp add: power_int_def field_simps)
  have p2: "2 powi (- bitlen ?c + 1) = 1 / (2::real) ^ nat (bitlen ?c - 1)"
    using b by (simp add: power_int_def field_simps nat_diff_distrib)
  have "1 / (2::real) ^ nat (bitlen ?c) \<le> y"
    using h y by (simp add: field_simps)
  moreover have "y < 1 / (2::real) ^ nat (bitlen ?c - 1)"
    using l y by (simp add: field_simps)
  ultimately show ?thesis
    using False p1 p2 by (simp add: expo_def)
qed

lemma expo_unique:
  assumes "2 powi e \<le> y" and "y < 2 powi (e + 1)"
  shows "expo y = e"
proof -
  have "(0::real) < 2 powi e" by simp
  with assms have y: "y > 0" by linarith
  from expo_bounds [OF y]
  have b: "2 powi (expo y) \<le> y" "y < 2 powi (expo y + 1)" by simp_all
  have "\<not> expo y < e"
  proof
    assume "expo y < e"
    then have "expo y + 1 \<le> e" by simp
    then have "(2::real) powi (expo y + 1) \<le> 2 powi e"
      by (intro power_int_increasing) simp_all
    with assms b show False by linarith
  qed
  moreover have "\<not> e < expo y"
  proof
    assume "e < expo y"
    then have "e + 1 \<le> expo y" by simp
    then have "(2::real) powi (e + 1) \<le> 2 powi (expo y)"
      by (intro power_int_increasing) simp_all
    with assms b show False by linarith
  qed
  ultimately show ?thesis by linarith
qed

text \<open>
  The rounding of a number in the normal range, given its exponent \<open>e\<close> and the
  significand \<open>n\<close> it rounds to: the facts left to check are numeral computations.
\<close>

lemma fl_evalI:
  assumes "2 powi e \<le> \<bar>x\<bar>" and "\<bar>x\<bar> < 2 powi (e + 1)"
    and "- 1022 \<le> e"
    and "round_half_even (x / 2 powi (e - 52)) = n"
    and "of_int n * 2 powi (e - 52) = r"
    and "\<bar>r\<bar> < 2 ^ 1024" and "r \<noteq> 0"
  shows "fl x = Fin r"
proof -
  have "(0::real) < 2 powi e" by simp
  with assms(1) have "0 < \<bar>x\<bar>" by linarith
  then have x: "x \<noteq> 0" by simp
  from expo_unique [OF assms(1,2)] have e: "expo \<bar>x\<bar> = e" .
  from assms(3) have p: "max (e - 52) (- 1074) = e - 52" by simp
  from assms(6) have "\<not> r \<ge> 2 ^ 1024" "\<not> r \<le> - (2 ^ 1024)" by linarith+
  with x e p assms(4,5,7) show ?thesis
    by (simp add: fl_def Let_def)
qed

lemma round_half_even_of_int: "round_half_even (of_int m) = m"
  by (simp add: round_half_even_def)

text \<open>A whole number of magnitude below \<open>2^53\<close> is a double.\<close>

lemma fl_of_int:
  assumes "k \<noteq> 0" and "\<bar>k\<bar> < 2 ^ 53"
  shows "fl (of_int k) = Fin (of_int k)"
proof -
  let ?y = "\<bar>real_of_int k\<bar>"
  let ?e = "expo ?y"
  from assms(1) have "1 \<le> \<bar>k\<bar>" by linarith
  then have "real_of_int 1 \<le> real_of_int \<bar>k\<bar>" by (simp only: of_int_le_iff)
  then have y1: "1 \<le> ?y" by simp
  then have ypos: "0 < ?y" by linarith
  from assms(2) have "real_of_int \<bar>k\<bar> < real_of_int (2 ^ 53)"
    by (simp only: of_int_less_iff)
  then have y53: "?y < 2 ^ 53" by simp
  from expo_bounds [OF ypos]
  have lo: "2 powi ?e \<le> ?y" and hi: "?y < 2 powi (?e + 1)" by simp_all
  have e0: "0 \<le> ?e"
  proof (rule ccontr)
    assume "\<not> 0 \<le> ?e"
    then have "?e + 1 \<le> 0" by simp
    then have "(2::real) powi (?e + 1) \<le> 2 powi 0"
      by (intro power_int_increasing) simp_all
    with hi y1 show False by simp
  qed
  have e52: "?e \<le> 52"
  proof (rule ccontr)
    assume "\<not> ?e \<le> 52"
    then have "53 \<le> ?e" by simp
    then have "(2::real) powi 53 \<le> 2 powi ?e"
      by (intro power_int_increasing) simp_all
    with lo y53 show False by simp
  qed
  define m where "m = nat (52 - ?e)"
  from e52 have p: "(2::real) powi (?e - 52) = 1 / 2 ^ m"
    by (simp add: m_def power_int_def field_simps)
  have q: "real_of_int k / 2 powi (?e - 52) = real_of_int (k * 2 ^ m)"
    by (simp add: p)
  have rq: "round_half_even (real_of_int k / 2 powi (?e - 52)) = k * 2 ^ m"
    unfolding q by (rule round_half_even_of_int)
  have restored: "real_of_int (k * 2 ^ m) * 2 powi (?e - 52) = real_of_int k"
    by (simp add: p)
  have big: "\<bar>real_of_int k\<bar> < 2 ^ 1024"
  proof -
    have "(2::real) ^ 53 \<le> 2 ^ 1024" by (intro power_increasing) simp_all
    with y53 show ?thesis by linarith
  qed
  from assms(1) have nz: "real_of_int k \<noteq> 0" by simp
  from e0 have e1022: "- 1022 \<le> ?e" by simp
  show ?thesis
    by (rule fl_evalI [OF lo hi e1022 rq restored big nz])
qed

lemma round_half_even_ge: "of_int m \<le> q \<Longrightarrow> m \<le> round_half_even q"
proof -
  assume "of_int m \<le> q"
  then have "m \<le> \<lfloor>q\<rfloor>" by (simp add: le_floor_iff)
  then show ?thesis by (simp add: round_half_even_def Let_def)
qed

lemma round_half_even_le: "q \<le> of_int m \<Longrightarrow> round_half_even q \<le> m"
proof (cases "q = of_int m")
  case True
  then show ?thesis by (simp add: round_half_even_of_int)
next
  case False
  assume "q \<le> of_int m"
  with False have "q < of_int m" by simp
  then have "\<lfloor>q\<rfloor> < m" by (simp add: floor_less_iff)
  then show ?thesis by (simp add: round_half_even_def Let_def)
qed

text \<open>
  Rounding does not cross a double: the rounding of a number at or above a normal double
  \<open>c\<close> (with exponent \<open>e\<close> and significand \<open>m\<close>) is at or above \<open>c\<close>.
\<close>

lemma fl_ge:
  assumes grid: "of_int m * 2 powi (e - 52) = c"
    and lo: "2 powi e \<le> c" and hi: "c < 2 powi (e + 1)" and e: "- 1022 \<le> e"
    and cx: "c \<le> x"
  shows "fl x = PInf \<or> (\<exists>r. fl x = Fin r \<and> c \<le> r)"
proof -
  have cpos: "0 < c" using lo by (smt (verit) zero_less_power_int)
  with cx have xpos: "0 < x" by linarith
  let ?ex = "expo x"
  from expo_bounds [OF xpos] have xb: "2 powi ?ex \<le> x" "x < 2 powi (?ex + 1)" by simp_all
  have ee: "e \<le> ?ex"
  proof (rule ccontr)
    assume "\<not> e \<le> ?ex"
    then have "?ex + 1 \<le> e" by simp
    then have "(2::real) powi (?ex + 1) \<le> 2 powi e"
      by (intro power_int_increasing) simp_all
    with xb lo cx show False by linarith
  qed
  with e have p: "max (?ex - 52) (- 1074) = ?ex - 52" by simp
  let ?u = "(2::real) powi (?ex - 52)"
  have upos: "0 < ?u" by simp
  let ?n = "round_half_even (x / ?u)"
  let ?r = "of_int ?n * ?u"
  have rc: "c \<le> ?r"
  proof (cases "?ex = e")
    case True
    from grid True have "of_int m = c / ?u" by (simp add: field_simps)
    also have "\<dots> \<le> x / ?u" using cx upos by (simp add: divide_right_mono)
    finally have "m \<le> ?n" by (rule round_half_even_ge)
    then have "real_of_int m \<le> real_of_int ?n" by (simp only: of_int_le_iff)
    then have "real_of_int m * ?u \<le> ?r" using upos by (simp add: mult_right_mono)
    with grid True show ?thesis by simp
  next
    case False
    with ee have "e + 1 \<le> ?ex" by simp
    then have step: "(2::real) powi (e + 1) \<le> 2 powi ?ex"
      by (intro power_int_increasing) simp_all
    have split: "(2::real) powi ?ex = 2 ^ 52 * ?u"
      by (simp add: power_int_diff)
    have "real_of_int (2 ^ 52) = 2 powi ?ex / ?u" using split by simp
    also have "\<dots> \<le> x / ?u" using xb upos by (simp add: divide_right_mono)
    finally have "2 ^ 52 \<le> ?n" by (rule round_half_even_ge)
    then have "real_of_int (2 ^ 52) \<le> real_of_int ?n" by (simp only: of_int_le_iff)
    then have "real_of_int (2 ^ 52) * ?u \<le> ?r" using upos by (simp add: mult_right_mono)
    with split have "2 powi ?ex \<le> ?r" by simp
    with step hi show ?thesis by linarith
  qed
  with cpos have rpos: "0 < ?r" by linarith
  have flx: "fl x = (if ?r \<ge> 2 ^ 1024 then PInf else Fin ?r)"
    using xpos rpos p by (simp add: fl_def Let_def)
  show ?thesis
  proof (cases "?r \<ge> 2 ^ 1024")
    case True
    with flx show ?thesis by simp
  next
    case False
    with flx rc show ?thesis by simp
  qed
qed

text \<open>Likewise from above, for a number in the normal range.\<close>

lemma fl_le:
  assumes grid: "of_int m * 2 powi (e - 52) = c"
    and lo: "2 powi e \<le> c" and hi: "c < 2 powi (e + 1)" and e: "e \<le> 1023"
    and normal: "2 powi (- 1022) \<le> x" and xc: "x \<le> c"
  shows "\<exists>r. fl x = Fin r \<and> 0 < r \<and> r \<le> c"
proof -
  have "(0::real) < 2 powi (- 1022)" by simp
  with normal have xpos: "0 < x" by linarith
  let ?ex = "expo x"
  from expo_bounds [OF xpos] have xb: "2 powi ?ex \<le> x" "x < 2 powi (?ex + 1)" by simp_all
  have ee: "?ex \<le> e"
  proof (rule ccontr)
    assume "\<not> ?ex \<le> e"
    then have "e + 1 \<le> ?ex" by simp
    then have "(2::real) powi (e + 1) \<le> 2 powi ?ex"
      by (intro power_int_increasing) simp_all
    with xb hi xc show False by linarith
  qed
  have en: "- 1022 \<le> ?ex"
  proof (rule ccontr)
    assume "\<not> - 1022 \<le> ?ex"
    then have "?ex + 1 \<le> - 1022" by simp
    then have "(2::real) powi (?ex + 1) \<le> 2 powi (- 1022)"
      by (intro power_int_increasing) simp_all
    with xb normal show False by linarith
  qed
  then have p: "max (?ex - 52) (- 1074) = ?ex - 52" by simp
  let ?u = "(2::real) powi (?ex - 52)"
  have upos: "0 < ?u" by simp
  let ?n = "round_half_even (x / ?u)"
  let ?r = "of_int ?n * ?u"
  have split: "(2::real) powi ?ex = 2 ^ 52 * ?u"
    by (simp add: power_int_diff)
  have split1: "(2::real) powi (?ex + 1) = 2 ^ 53 * ?u"
    by (simp add: power_int_diff power_int_add)
  have "real_of_int (2 ^ 52) = 2 powi ?ex / ?u" using split by simp
  also have "\<dots> \<le> x / ?u" using xb upos by (simp add: divide_right_mono)
  finally have "2 ^ 52 \<le> ?n" by (rule round_half_even_ge)
  then have npos: "0 < ?n" by simp
  then have "0 < real_of_int ?n" by (simp only: of_int_0_less_iff)
  with upos have rpos: "0 < ?r" by simp
  have rc: "?r \<le> c"
  proof (cases "?ex = e")
    case True
    have "x / ?u \<le> c / ?u" using xc upos by (simp add: divide_right_mono)
    also from grid True have "c / ?u = of_int m" by (simp add: field_simps)
    finally have "?n \<le> m" by (rule round_half_even_le)
    then have "real_of_int ?n \<le> real_of_int m" by (simp only: of_int_le_iff)
    then have "?r \<le> real_of_int m * ?u" using upos by (simp add: mult_right_mono)
    with grid True show ?thesis by simp
  next
    case False
    with ee have "?ex + 1 \<le> e" by simp
    then have step: "(2::real) powi (?ex + 1) \<le> 2 powi e"
      by (intro power_int_increasing) simp_all
    have "x / ?u \<le> 2 powi (?ex + 1) / ?u" using xb upos by (simp add: divide_right_mono)
    also have "\<dots> = real_of_int (2 ^ 53)" using split1 by simp
    finally have "?n \<le> 2 ^ 53" by (rule round_half_even_le)
    then have "real_of_int ?n \<le> real_of_int (2 ^ 53)" by (simp only: of_int_le_iff)
    then have "?r \<le> real_of_int (2 ^ 53) * ?u" using upos by (simp add: mult_right_mono)
    with split1 have "?r \<le> 2 powi (?ex + 1)" by simp
    with step lo show ?thesis by linarith
  qed
  have "(2::real) powi (e + 1) \<le> 2 powi 1024"
    using e by (intro power_int_increasing) simp_all
  with hi rc have big: "?r < 2 ^ 1024" by simp
  have flx: "fl x = Fin ?r"
    using xpos rpos big p by (simp add: fl_def Let_def)
  with rpos rc show ?thesis by simp
qed

text \<open>The rounding of a negative number has the sign bit set.\<close>

lemma fl_neg:
  assumes "x < 0"
  shows "neg (fl x)"
proof -
  let ?p = "max (expo \<bar>x\<bar> - 52) (- 1074)"
  let ?u = "(2::real) powi ?p"
  have upos: "0 < ?u" by simp
  let ?n = "round_half_even (x / ?u)"
  let ?r = "of_int ?n * ?u"
  have "x / ?u \<le> real_of_int 0" using assms upos by (simp add: divide_le_0_iff)
  then have "?n \<le> 0" by (rule round_half_even_le)
  then have "real_of_int ?n \<le> 0" by (simp only: of_int_le_0_iff)
  with upos have r: "?r \<le> 0" by (simp add: mult_le_0_iff)
  have small: "\<not> ?r \<ge> 2 ^ 1024"
  proof -
    have "(0::real) < 2 ^ 1024" by simp
    with r show ?thesis by linarith
  qed
  from assms have x: "x \<noteq> 0" by simp
  have flx: "fl x = (if ?r \<le> - (2 ^ 1024) then NInf else if ?r = 0 then NZero else Fin ?r)"
    using x small assms unfolding fl_def Let_def by (simp only: if_False simp_thms)
  show ?thesis
  proof (cases "?r = 0")
    case True
    with flx show ?thesis by (simp split: if_splits)
  next
    case False
    with r have "?r < 0" by linarith
    with flx show ?thesis by (simp del: of_int_mult split: if_splits)
  qed
qed

section \<open>Rounded values of the examples\<close>

text \<open>
  The doubles the decimal literals of the examples denote (a literal is written as the
  fraction in lowest terms it is simplified to), and the results of the operations the
  examples perform on them.
\<close>

lemma fl_0_98:
  "fl (49 / 50) = Fin (2206763817411543 / 2251799813685248)"
  by (rule fl_evalI [where e = "- 1" and n = 8827055269646172])
     (simp_all add: round_half_even_def)

lemma fl_0_005:
  "fl (1 / 200) = Fin (5764607523034235 / 1152921504606846976)"
  by (rule fl_evalI [where e = "- 8" and n = 5764607523034235])
     (simp_all add: round_half_even_def)

lemma fl_0_0025:
  "fl (1 / 400) = Fin (5764607523034235 / 2305843009213693952)"
  by (rule fl_evalI [where e = "- 9" and n = 5764607523034235])
     (simp_all add: round_half_even_def)

lemma fl_0_0055:
  "fl (11 / 2000) = Fin (3170534137668829 / 576460752303423488)"
  by (rule fl_evalI [where e = "- 8" and n = 6341068275337658])
     (simp_all add: round_half_even_def)

lemma fl_0_99:
  "fl (99 / 100) = Fin (4458563631096791 / 4503599627370496)"
  by (rule fl_evalI [where e = "- 1" and n = 8917127262193582])
     (simp_all add: round_half_even_def)

lemma fl_0_995:
  "fl (199 / 200) = Fin (8962163258467287 / 9007199254740992)"
  by (rule fl_evalI [where e = "- 1" and n = 8962163258467287])
     (simp_all add: round_half_even_def)

lemma fl_0_985:
  "fl (197 / 200) = Fin (8872091265919877 / 9007199254740992)"
  by (rule fl_evalI [where e = "- 1" and n = 8872091265919877])
     (simp_all add: round_half_even_def)

lemma fl_0_015:
  "fl (3 / 200) = Fin (1080863910568919 / 72057594037927936)"
  by (rule fl_evalI [where e = "- 7" and n = 8646911284551352])
     (simp_all add: round_half_even_def)

lemma fl_0_9875:
  "fl (79 / 80) = Fin (4447304632028365 / 4503599627370496)"
  by (rule fl_evalI [where e = "- 1" and n = 8894609264056730])
     (simp_all add: round_half_even_def)

lemma fl_0_4:
  "fl (2 / 5) = Fin (3602879701896397 / 9007199254740992)"
  by (rule fl_evalI [where e = "- 2" and n = 7205759403792794])
     (simp_all add: round_half_even_def)

lemma fl_0_1:
  "fl (1 / 10) = Fin (3602879701896397 / 36028797018963968)"
  by (rule fl_evalI [where e = "- 4" and n = 7205759403792794])
     (simp_all add: round_half_even_def)

lemma mul_100_d98:
  "jmul (Fin 100) (Fin (2206763817411543 / 2251799813685248))
     = Fin 98"
  by (simp add: jmul_def)
     (rule fl_evalI [where e = 6 and n = 6896136929411072];
      simp add: round_half_even_def)

lemma mul_d98_100:
  "jmul (Fin (2206763817411543 / 2251799813685248)) (Fin 100)
     = Fin 98"
  by (simp add: jmul_def)
     (rule fl_evalI [where e = 6 and n = 6896136929411072];
      simp add: round_half_even_def)

lemma mul_d98_200:
  "jmul (Fin (2206763817411543 / 2251799813685248)) (Fin 200)
     = Fin 196"
  by (simp add: jmul_def)
     (rule fl_evalI [where e = 7 and n = 6896136929411072];
      simp add: round_half_even_def)

lemma div_2_d005:
  "jdiv (Fin 2) (Fin (5764607523034235 / 1152921504606846976))
     = Fin 400"
  by (simp add: jdiv_def)
     (rule fl_evalI [where e = 8 and n = 7036874417766400];
      simp add: round_half_even_def)

lemma mul_100_2:
  "jmul (Fin 100) (Fin 2)
     = Fin 200"
  by (simp add: jmul_def)
     (rule fl_evalI [where e = 7 and n = 7036874417766400];
      simp add: round_half_even_def)

lemma mul_200_100:
  "jmul (Fin 200) (Fin 100)
     = Fin 20000"
  by (simp add: jmul_def)
     (rule fl_evalI [where e = 14 and n = 5497558138880000];
      simp add: round_half_even_def)

lemma div_20000_100:
  "jdiv (Fin 20000) (Fin 100)
     = Fin 200"
  by (simp add: jdiv_def)
     (rule fl_evalI [where e = 7 and n = 7036874417766400];
      simp add: round_half_even_def)

lemma div_d0025_d005:
  "jdiv (Fin (5764607523034235 / 2305843009213693952)) (Fin (5764607523034235 / 1152921504606846976))
     = Fin (1 / 2)"
  by (simp add: jdiv_def)
     (rule fl_evalI [where e = "- 1" and n = 4503599627370496];
      simp add: round_half_even_def)

lemma mul_100_100:
  "jmul (Fin 100) (Fin 100)
     = Fin 10000"
  by (simp add: jmul_def)
     (rule fl_evalI [where e = 13 and n = 5497558138880000];
      simp add: round_half_even_def)

lemma div_10000_100:
  "jdiv (Fin 10000) (Fin 100)
     = Fin 100"
  by (simp add: jdiv_def)
     (rule fl_evalI [where e = 6 and n = 7036874417766400];
      simp add: round_half_even_def)

lemma mul_100_half:
  "jmul (Fin 100) (Fin (1 / 2))
     = Fin 50"
  by (simp add: jmul_def)
     (rule fl_evalI [where e = 5 and n = 7036874417766400];
      simp add: round_half_even_def)

lemma mul_50_100:
  "jmul (Fin 50) (Fin 100)
     = Fin 5000"
  by (simp add: jmul_def)
     (rule fl_evalI [where e = 12 and n = 5497558138880000];
      simp add: round_half_even_def)

lemma div_5000_100:
  "jdiv (Fin 5000) (Fin 100)
     = Fin 50"
  by (simp add: jdiv_def)
     (rule fl_evalI [where e = 5 and n = 7036874417766400];
      simp add: round_half_even_def)

lemma div_d0055_d005:
  "jdiv (Fin (3170534137668829 / 576460752303423488)) (Fin (5764607523034235 / 1152921504606846976))
     = Fin (4953959590107545 / 4503599627370496)"
  by (simp add: jdiv_def)
     (rule fl_evalI [where e = 0 and n = 4953959590107545];
      simp add: round_half_even_def)

lemma mul_100_ratio:
  "jmul (Fin 100) (Fin (4953959590107545 / 4503599627370496))
     = Fin (7740561859543039 / 70368744177664)"
  by (simp add: jmul_def)
     (rule fl_evalI [where e = 6 and n = 7740561859543039];
      simp add: round_half_even_def)

lemma mul_size_100:
  "jmul (Fin (7740561859543039 / 70368744177664)) (Fin 100)
     = Fin (6047313952767999 / 549755813888)"
  by (simp add: jmul_def)
     (rule fl_evalI [where e = 13 and n = 6047313952767999];
      simp add: round_half_even_def)

lemma div_10999_100:
  "jdiv (Fin 10999) (Fin 100)
     = Fin (7739858172101263 / 70368744177664)"
  by (simp add: jdiv_def)
     (rule fl_evalI [where e = 6 and n = 7739858172101263];
      simp add: round_half_even_def)

lemma sub_100_98:
  "jsub (Fin 100) (Fin 98)
     = Fin 2"
  by (simp add: jadd_def jsub_def)
     (rule fl_evalI [where e = 1 and n = 4503599627370496];
      simp add: round_half_even_def)

lemma add_0_2:
  "jadd (Fin 0) (Fin 2)
     = Fin 2"
  by (simp add: jadd_def)
     (rule fl_evalI [where e = 1 and n = 4503599627370496];
      simp add: round_half_even_def)

lemma div_1_1:
  "jdiv (Fin 1) (Fin 1)
     = Fin 1"
  by (simp add: jdiv_def)
     (rule fl_evalI [where e = 0 and n = 4503599627370496];
      simp add: round_half_even_def)

lemma mul_1_100:
  "jmul (Fin 1) (Fin 100)
     = Fin 100"
  by (simp add: jmul_def)
     (rule fl_evalI [where e = 6 and n = 7036874417766400];
      simp add: round_half_even_def)

lemma sub_1_d99:
  "jsub (Fin 1) (Fin (4458563631096791 / 4503599627370496))
     = Fin (45035996273705 / 4503599627370496)"
  by (simp add: jadd_def jsub_def)
     (rule fl_evalI [where e = "- 7" and n = 5764607523034240];
      simp add: round_half_even_def)

lemma mul_gap_100:
  "jmul (Fin (45035996273705 / 4503599627370496)) (Fin 100)
     = Fin (1125899906842625 / 1125899906842624)"
  by (simp add: jmul_def)
     (rule fl_evalI [where e = 0 and n = 4503599627370500];
      simp add: round_half_even_def)

lemma mul_d99_100:
  "jmul (Fin (4458563631096791 / 4503599627370496)) (Fin 100)
     = Fin 99"
  by (simp add: jmul_def)
     (rule fl_evalI [where e = 6 and n = 6966505673588736];
      simp add: round_half_even_def)

lemma sub_1_d9875:
  "jsub (Fin 1) (Fin (4447304632028365 / 4503599627370496))
     = Fin (56294995342131 / 4503599627370496)"
  by (simp add: jadd_def jsub_def)
     (rule fl_evalI [where e = "- 7" and n = 7205759403792768];
      simp add: round_half_even_def)

lemma mul_gap_d04:
  "jmul (Fin (56294995342131 / 4503599627370496)) (Fin (3602879701896397 / 9007199254740992))
     = Fin (5764607523034215 / 1152921504606846976)"
  by (simp add: jmul_def)
     (rule fl_evalI [where e = "- 8" and n = 5764607523034215];
      simp add: round_half_even_def)

lemma sub_0_196:
  "jsub (Fin 0) (Fin 196)
     = Fin (- 196)"
  by (simp add: jadd_def jsub_def)
     (rule fl_evalI [where e = 7 and n = "- 6896136929411072"];
      simp add: round_half_even_def)

lemma add_0_m196:
  "jadd (Fin 0) (Fin (- 196))
     = Fin (- 196)"
  by (simp add: jadd_def)
     (rule fl_evalI [where e = 7 and n = "- 6896136929411072"];
      simp add: round_half_even_def)

lemma add_m196_m196:
  "jadd (Fin (- 196)) (Fin (- 196))
     = Fin (- 392)"
  by (simp add: jadd_def)
     (rule fl_evalI [where e = 8 and n = "- 6896136929411072"];
      simp add: round_half_even_def)

lemma add_m392_m196:
  "jadd (Fin (- 392)) (Fin (- 196))
     = Fin (- 588)"
  by (simp add: jadd_def)
     (rule fl_evalI [where e = 9 and n = "- 5172102697058304"];
      simp add: round_half_even_def)

lemma add_0_98:
  "jadd (Fin 0) (Fin 98)
     = Fin 98"
  by (simp add: jadd_def)
     (rule fl_evalI [where e = 6 and n = 6896136929411072];
      simp add: round_half_even_def)

lemma mul_gap_500:
  "jmul (Fin (45035996273705 / 4503599627370496)) (Fin 500)
     = Fin (5629499534213125 / 1125899906842624)"
  by (simp add: jmul_def)
     (rule fl_evalI [where e = 2 and n = 5629499534213125];
      simp add: round_half_even_def)
section \<open>Properties of the ledger\<close>

text \<open>
  The verdict of \<open>canOpenNewPosition\<close>: the open exposure is the rounded sum, in map
  order, of \<open>entryPrice \<times> size\<close> over the positions whose status is \<open>OPEN\<close>.
\<close>

lemma canOpenNewPosition_verdict:
  "canOpenNewPosition cfg st sz price =
     (\<not> jgt (jadd (foldl (\<lambda>sum p. jadd sum (jmul (p_entryPrice p) (p_size p))) (Fin 0)
                      (filter (\<lambda>p. p_status p = OPEN) (map snd (positions st))))
                   (jmul sz price))
             (maxTotalExposure cfg)
      \<and> \<not> jlt (dailyPnL st) (jneg (dailyLossLimit cfg)), st)"
  by (simp add: canOpenNewPosition_def getTotalExposure_def getOpenPositions_def Let_def)

lemma resolvePosition_loss:
  assumes "map_of (positions st) positionId = Some position"
  shows "positions (fst (resolvePosition st positionId resolvedPrice False))
           = AList.update positionId (position\<lparr>p_status := RESOLVED_LOSS\<rparr>) (positions st)"
    and "dailyPnL (fst (resolvePosition st positionId resolvedPrice False))
           = jadd (dailyPnL st)
               (jsub (Fin 0) (jmul (p_entryPrice position) (p_size position)))"
    and "dailyStartDate (fst (resolvePosition st positionId resolvedPrice False))
           = dailyStartDate st"
  using assms by (simp_all add: resolvePosition_def Let_def)

text \<open>
  C10. Resolving an id the ledger does not hold changes nothing: the positions, the
  statistics and the daily P&L are as before and no event is emitted.
\<close>

theorem C10_resolvePosition_unknown_id:
  "map_of (positions st) positionId = None \<Longrightarrow>
     resolvePosition st positionId resolvedPrice isWinner = (st, [])"
  by (simp add: resolvePosition_def)

theorem C10_resolvePosition_unknown_id_witness:
  "map_of (positions sample_ledger) ''t2'' = None
   \<and> resolvePosition sample_ledger ''t2'' (Fin 1) True = (sample_ledger, [])"
  using C10_resolvePosition_unknown_id [of sample_ledger "''t2''" "Fin 1" True]
  by (simp add: sample_ledger_def)

text \<open>
  C4, as the code has it. For a position the ledger holds, \<open>resolvePosition\<close> computes
  \<open>pnl = (isWinner ? size : 0) - entryPrice \<times> size\<close>, sets the status to \<open>RESOLVED_WIN\<close>
  or \<open>RESOLVED_LOSS\<close>, updates the counters and sums, and stores the win rate as a
  percentage, \<open>winningTrades / (winningTrades + losingTrades) \<times> 100\<close>, and the average
  profit \<open>(totalProfit - totalLoss) / (winningTrades + losingTrades)\<close>.
\<close>

theorem C4_resolvePosition_pnl_and_aggregates:
  assumes "map_of (positions st) positionId = Some position"
  shows "let pnl = jsub (if isWinner then p_size position else Fin 0)
                        (jmul (p_entryPrice position) (p_size position));
             position' = position\<lparr>p_status := (if isWinner then RESOLVED_WIN else RESOLVED_LOSS)\<rparr>;
             st' = fst (resolvePosition st positionId resolvedPrice isWinner);
             s = stats st; s' = stats st'
         in snd (resolvePosition st positionId resolvedPrice isWinner)
              = [position_resolved position' pnl]
          \<and> map_of (positions st') positionId = Some position'
          \<and> winningTrades s' = (if isWinner then winningTrades s + 1 else winningTrades s)
          \<and> losingTrades s' = (if isWinner then losingTrades s else losingTrades s + 1)
          \<and> totalProfit s' = (if isWinner then jadd (totalProfit s) pnl else totalProfit s)
          \<and> totalLoss s' = (if isWinner then totalLoss s else jadd (totalLoss s) (jabs pnl))
          \<and> winRate s'
              = jmul (jdiv (Fin (real (winningTrades s')))
                           (Fin (real (winningTrades s' + losingTrades s')))) (Fin 100)
          \<and> averageProfit s'
              = jdiv (jsub (totalProfit s') (totalLoss s'))
                     (Fin (real (winningTrades s' + losingTrades s')))
          \<and> dailyPnL st' = jadd (dailyPnL st) pnl"
  using assms by (simp add: resolvePosition_def Let_def update_Some_unfold ac_simps)

text \<open>
  The instance of the specification: entry price 0.98, size 100, a winner. The P&L is 2,
  the total profit grows by 2, the winners grow by one, and the stored win rate is 100.
\<close>

theorem C4_resolvePosition_pnl_and_aggregates_witness:
  "map_of (positions sample_ledger) ''t1'' = Some sample_position
   \<and> snd (resolvePosition sample_ledger ''t1'' (Fin 1) True)
       = [position_resolved (sample_position\<lparr>p_status := RESOLVED_WIN\<rparr>) (Fin 2)]
   \<and> totalProfit (stats sample_ledger) = Fin 0
   \<and> totalProfit (stats (fst (resolvePosition sample_ledger ''t1'' (Fin 1) True))) = Fin 2
   \<and> winningTrades (stats (fst (resolvePosition sample_ledger ''t1'' (Fin 1) True)))
       = winningTrades (stats sample_ledger) + 1
   \<and> winRate (stats (fst (resolvePosition sample_ledger ''t1'' (Fin 1) True))) = Fin 100"
  using C4_resolvePosition_pnl_and_aggregates
          [of sample_ledger "''t1''" sample_position True "Fin 1"]
  by (simp add: sample_ledger_def sample_position_def initial_stats_def Let_def
        fl_0_98 mul_d98_100 sub_100_98 add_0_2 div_1_1 mul_1_100)

text \<open>
  The specification gives the win rate as the plain quotient of winners by resolved
  trades. After the one winner above the quotient is 1 and the stored win rate is 100.
\<close>

theorem C4_winRate_is_not_the_quotient:
  "winRate (stats (fst (resolvePosition sample_ledger ''t1'' (Fin 1) True))) \<noteq>
     jdiv (Fin (real (winningTrades (stats (fst (resolvePosition sample_ledger ''t1'' (Fin 1) True))))))
          (Fin (real (winningTrades (stats (fst (resolvePosition sample_ledger ''t1'' (Fin 1) True)))
                      + losingTrades (stats (fst (resolvePosition sample_ledger ''t1'' (Fin 1) True))))))"
  by (simp add: resolvePosition_def sample_ledger_def sample_position_def
        initial_stats_def Let_def div_1_1 mul_1_100)

section \<open>Properties of the executor\<close>

lemma jgt_2_imp_jgt_1: "jgt r (Fin 2) \<Longrightarrow> jgt r (Fin 1)"
  by (cases r) (simp_all add: jgt_def)

lemma jmin_above_2: "jgt r (Fin 2) \<Longrightarrow> jmin r (Fin 2) = Fin 2"
  by (cases r) (simp_all add: jgt_def jmin_def)

lemma jmin_up_to_2: "jle r (Fin 2) \<Longrightarrow> jgt r (Fin 1) \<Longrightarrow> jmin r (Fin 2) = r"
  by (cases r) (auto simp add: jgt_def jmin_def)

lemma executeOpportunity_None_iff:
  "(fst (executeOpportunity cfg env ex opp) = None) =
     (\<not> isEnabled ex \<or> \<not> canTrade env \<or> jle (calculateOrderSize cfg opp) (Fin 0))"
  by (simp add: executeOpportunity_def Let_def split: order_result.splits)

lemma executeOpportunity_Some:
  assumes "fst (executeOpportunity cfg env ex opp) = Some trade"
  shows "t_size trade = calculateOrderSize cfg opp
         \<and> t_price trade = o_currentPrice opp
         \<and> t_status trade =
             (case placeOrder env
                     \<lparr> r_tokenId = o_tokenId opp, r_price = o_currentPrice opp,
                       r_size = calculateOrderSize cfg opp, r_side = BUY,
                       r_orderType = FOK \<rparr> of
                Responds response \<Rightarrow> if success response then MATCHED else FAILED
              | Throws \<Rightarrow> FAILED)"
  using assms
  by (auto simp add: executeOpportunity_def Let_def split: order_result.splits if_splits)

text \<open>
  C3, as the code has it. With \<open>ratio = expectedProfit / minProfitThreshold\<close> and every
  operation rounded as the doubles of the code are: a ratio above 2 gives
  \<open>min(defaultOrderSize \<times> 2, maxPositionSize)\<close>, a ratio above 1 and at most 2 gives
  \<open>min(defaultOrderSize \<times> ratio, maxPositionSize)\<close>, and any other ratio (at most 1, or
  not a number) leaves the base size unscaled, \<open>min(defaultOrderSize, maxPositionSize)\<close>;
  the result is rounded down to cents. No trade is returned exactly when execution is
  disabled, the venue client is unauthenticated or the size is not positive; a trade
  that is returned has this size, and so has the order placed for it.
\<close>

theorem C3_order_size_and_rejection:
  "let ratio = jdiv (o_expectedProfit opp) (minProfitThreshold cfg);
       cents = (\<lambda>x. jdiv (jfloor (jmul x (Fin 100))) (Fin 100));
       orderSize = calculateOrderSize cfg opp
   in (jgt ratio (Fin 2) \<longrightarrow>
         orderSize = cents (jmin (jmul (defaultOrderSize cfg) (Fin 2)) (maxPositionSize cfg)))
    \<and> (jgt ratio (Fin 1) \<and> jle ratio (Fin 2) \<longrightarrow>
         orderSize = cents (jmin (jmul (defaultOrderSize cfg) ratio) (maxPositionSize cfg)))
    \<and> (\<not> jgt ratio (Fin 1) \<longrightarrow>
         orderSize = cents (jmin (defaultOrderSize cfg) (maxPositionSize cfg)))
    \<and> (fst (executeOpportunity cfg env ex opp) = None) =
         (\<not> isEnabled ex \<or> \<not> canTrade env \<or> jle orderSize (Fin 0))
    \<and> (\<forall>trade. fst (executeOpportunity cfg env ex opp) = Some trade \<longrightarrow>
          t_size trade = orderSize
          \<and> t_price trade = o_currentPrice opp
          \<and> t_status trade =
              (case placeOrder env
                      \<lparr> r_tokenId = o_tokenId opp, r_price = o_currentPrice opp,
                        r_size = orderSize, r_side = BUY, r_orderType = FOK \<rparr> of
                 Responds response \<Rightarrow> if success response then MATCHED else FAILED
               | Throws \<Rightarrow> FAILED))"
proof -
  let ?ratio = "jdiv (o_expectedProfit opp) (minProfitThreshold cfg)"
  have above: "jgt ?ratio (Fin 2) \<Longrightarrow>
      calculateOrderSize cfg opp =
        jdiv (jfloor (jmul (jmin (jmul (defaultOrderSize cfg) (Fin 2)) (maxPositionSize cfg))
                (Fin 100))) (Fin 100)"
    by (simp add: calculateOrderSize_def Let_def jgt_2_imp_jgt_1 jmin_above_2)
  have between: "jgt ?ratio (Fin 1) \<Longrightarrow> jle ?ratio (Fin 2) \<Longrightarrow>
      calculateOrderSize cfg opp =
        jdiv (jfloor (jmul (jmin (jmul (defaultOrderSize cfg) ?ratio) (maxPositionSize cfg))
                (Fin 100))) (Fin 100)"
    by (simp add: calculateOrderSize_def Let_def jmin_up_to_2)
  have unscaled: "\<not> jgt ?ratio (Fin 1) \<Longrightarrow>
      calculateOrderSize cfg opp =
        jdiv (jfloor (jmul (jmin (defaultOrderSize cfg) (maxPositionSize cfg))
                (Fin 100))) (Fin 100)"
    by (simp add: calculateOrderSize_def Let_def)
  from above between unscaled executeOpportunity_None_iff [of cfg env ex opp]
    executeOpportunity_Some [of cfg env ex opp]
  show ?thesis
    unfolding Let_def by blast
qed

lemma sample_size: "calculateOrderSize default_config (sample_opp n) = Fin 200"
  by (simp add: calculateOrderSize_def default_config_def sample_opp_def Let_def jgt_def
        jmin_def fl_0_005 div_2_d005 mul_100_2 mul_200_100 div_20000_100)

lemma small_size: "calculateOrderSize default_config small_opp = Fin 100"
  by (simp add: calculateOrderSize_def default_config_def small_opp_def sample_opp_def
        Let_def jgt_def jmin_def fl_0_005 fl_0_0025 div_d0025_d005 mul_100_100 div_10000_100)

lemma modest_size:
  "calculateOrderSize default_config modest_opp = Fin (7739858172101263 / 70368744177664)"
  by (simp add: calculateOrderSize_def default_config_def modest_opp_def sample_opp_def
        Let_def jgt_def jmin_def fl_0_005 fl_0_0055 div_d0055_d005 mul_100_ratio
        mul_size_100 div_10999_100)

lemma div_2_0: "jdiv (Fin 2) (Fin 0) = PInf"
  by (simp add: jdiv_def signed_inf_def)

lemma zero_threshold_size:
  "calculateOrderSize zero_threshold_config (sample_opp 0) = Fin 200"
  by (simp add: calculateOrderSize_def zero_threshold_config_def default_config_def
        sample_opp_def Let_def jgt_def jmin_def div_2_0 mul_100_2 mul_200_100 div_20000_100)

text \<open>
  Under the default configuration an expected profit of 2 (ratio 400) gives 200 shares,
  one of 0.0025 (ratio 0.5) gives 100, and one of 0.0055 gives 109.99: the quotient of
  the doubles 0.0055 and 0.005 is just below 1.1. With a threshold of zero the ratio is
  infinite and the size is 200. An unauthenticated client gets no trade, and a matched
  trade has the computed size.
\<close>

theorem C3_order_size_and_rejection_witness:
  "calculateOrderSize default_config (sample_opp 0) = Fin 200
   \<and> calculateOrderSize default_config small_opp = Fin 100
   \<and> calculateOrderSize default_config modest_opp = Fin (7739858172101263 / 70368744177664)
   \<and> fl 109.99 = Fin (7739858172101263 / 70368744177664)
   \<and> calculateOrderSize zero_threshold_config (sample_opp 0) = Fin 200
   \<and> fst (executeOpportunity default_config ((sample_env 0)\<lparr>canTrade := False\<rparr>)
            initial_executor (sample_opp 0)) = None
   \<and> map_option t_size
        (fst (executeOpportunity default_config (sample_env 0) initial_executor (sample_opp 0)))
       = Some (Fin 200)"
proof -
  have decimal: "fl 109.99 = Fin (7739858172101263 / 70368744177664)"
    by (rule fl_evalI [where e = 6 and n = 7739858172101263])
       (simp_all add: round_half_even_def)
  have refused: "fst (executeOpportunity default_config ((sample_env 0)\<lparr>canTrade := False\<rparr>)
            initial_executor (sample_opp 0)) = None"
    using C3_order_size_and_rejection
            [of "sample_opp 0" default_config "(sample_env 0)\<lparr>canTrade := False\<rparr>"
                initial_executor]
    by (simp add: Let_def)
  have "fst (executeOpportunity default_config (sample_env 0) initial_executor (sample_opp 0))
          \<noteq> None"
    by (simp add: executeOpportunity_None_iff sample_size sample_env_def initial_executor_def)
  then obtain trade where
    some: "fst (executeOpportunity default_config (sample_env 0) initial_executor (sample_opp 0))
             = Some trade"
    by blast
  with C3_order_size_and_rejection [of "sample_opp 0" default_config "sample_env 0" initial_executor]
  have "t_size trade = Fin 200"
    by (simp add: Let_def sample_size)
  with some decimal refused sample_size small_size modest_size zero_threshold_size
  show ?thesis by simp
qed

text \<open>
  The specification scales the base size by \<open>min(2, ratio)\<close> also for a ratio below 1.
  At a ratio of one half under the default configuration that formula gives 50, and
  \<open>calculateOrderSize\<close> gives 100.
\<close>

theorem C3_ratio_below_one_not_scaled:
  "jdiv (o_expectedProfit small_opp) (minProfitThreshold default_config) = Fin (1 / 2)
   \<and> calculateOrderSize default_config small_opp = Fin 100
   \<and> jdiv (jfloor (jmul (jmin (maxPositionSize default_config)
                            (jmul (defaultOrderSize default_config)
                               (jmin (Fin 2)
                                  (jdiv (o_expectedProfit small_opp)
                                        (minProfitThreshold default_config)))))
                     (Fin 100)))
          (Fin 100)
       = Fin 50"
  by (simp add: small_size)
     (simp add: default_config_def small_opp_def sample_opp_def jmin_def
        fl_0_005 fl_0_0025 div_d0025_d005 mul_100_half mul_50_100 div_5000_100)

lemma drainQueue_nth:
  "i < length q \<Longrightarrow>
     drainQueue cfg envs ex k q ! i =
       (if now (envs (k + i)) - o_timestamp (q ! i) > 5000 then Expired (q ! i)
        else Executed (q ! i) (fst (executeOpportunity cfg (envs (k + i)) ex (q ! i))))"
proof (induction q arbitrary: k i)
  case Nil
  then show ?case by simp
next
  case (Cons opp q)
  show ?case
  proof (cases i)
    case 0
    then show ?thesis by simp
  next
    case (Suc j)
    with Cons.prems have "j < length q" by simp
    from Cons.IH [OF this, of "Suc k"] Suc show ?thesis by simp
  qed
qed

lemma drainQueue_length: "length (drainQueue cfg envs ex k q) = length q"
  by (induction q arbitrary: k) simp_all

text \<open>
  C7. When the worker drains the queue, every opportunity is dequeued once; one whose
  detection timestamp is more than 5000 ms before the clock at its dequeue is dropped
  without a call of \<open>executeOpportunity\<close>, and one at most 5000 ms old is handed to
  \<open>executeOpportunity\<close>.
\<close>

theorem C7_stale_opportunity_discarded:
  assumes "\<not> isProcessing ex" and "i < length (executionQueue ex)"
  shows "let opportunity = executionQueue ex ! i; steps = snd (processQueue cfg envs ex)
         in length steps = length (executionQueue ex)
          \<and> (now (envs i) - o_timestamp opportunity > 5000 \<longrightarrow>
               steps ! i = Expired opportunity)
          \<and> (now (envs i) - o_timestamp opportunity \<le> 5000 \<longrightarrow>
               steps ! i = Executed opportunity
                 (fst (executeOpportunity cfg (envs i) (ex\<lparr>isProcessing := True\<rparr>) opportunity)))"
proof -
  from assms(2) have "executionQueue ex \<noteq> []" by auto
  with assms show ?thesis
    by (simp add: processQueue_def Let_def drainQueue_nth drainQueue_length)
qed

text \<open>
  The instance of the specification: at clock 6000 ms the opportunity detected at 0 ms
  (6000 ms old) is dropped, and the one detected at 1000 ms (5000 ms old) is executed.
\<close>

theorem C7_stale_opportunity_discarded_witness:
  "\<not> isProcessing sample_queue
   \<and> (0::nat) < length (executionQueue sample_queue)
   \<and> (1::nat) < length (executionQueue sample_queue)
   \<and> now (sample_clock 0) - o_timestamp (sample_opp 0) = 6000
   \<and> now (sample_clock 1) - o_timestamp (sample_opp 1) = 5000
   \<and> snd (processQueue default_config sample_clock sample_queue) ! 0 = Expired (sample_opp 0)
   \<and> snd (processQueue default_config sample_clock sample_queue) ! 1
       = Executed (sample_opp 1)
           (fst (executeOpportunity default_config (sample_clock 1)
                   (sample_queue\<lparr>isProcessing := True\<rparr>) (sample_opp 1)))"
  using C7_stale_opportunity_discarded [of sample_queue 0 default_config sample_clock]
        C7_stale_opportunity_discarded [of sample_queue 1 default_config sample_clock]
  by (simp add: sample_queue_def initial_executor_def sample_clock_def sample_env_def
        sample_opp_def Let_def)

section \<open>Properties of the opportunity handler\<close>

lemma onOpportunities_snoc:
  "onOpportunities cfg today ex st (xs @ [(env, opp)]) =
     onOpportunity cfg env today ex (onOpportunities cfg today ex st xs) opp"
  by (induction xs arbitrary: st) auto

lemma sample_run_Suc:
  "sample_run (Suc n) =
     onOpportunity default_config (sample_env n) ''Mon Nov 02 2026'' initial_executor
       (sample_run n) (sample_opp n)"
  by (simp add: sample_run_def onOpportunities_snoc)

lemma update_fresh: "k \<notin> fst ` set al \<Longrightarrow> AList.update k v al = al @ [(k, v)]"
  by (induction al) auto

lemma letter_inj:
  "i < 26 \<Longrightarrow> j < 26 \<Longrightarrow> (char_of (97 + i) = (char_of (97 + j) :: char)) = (i = (j::nat))"
  by (simp add: char_of_eq_iff take_bit_nat_eq_self)

text \<open>Sums of whole numbers below \<open>2^53\<close> are exact.\<close>

lemma jadd_whole:
  assumes "\<bar>a + b\<bar> < 2 ^ 53"
  shows "jadd (Fin (real_of_int a)) (Fin (real_of_int b)) = Fin (real_of_int (a + b))"
proof (cases "a + b = 0")
  case True
  then have "real_of_int a + real_of_int b = 0"
    by (metis of_int_0 of_int_add)
  with True show ?thesis by (simp add: jadd_def)
next
  case False
  then have nz: "real_of_int a + real_of_int b \<noteq> 0"
    by (metis of_int_0_eq_iff of_int_add)
  from False have "\<not> (a = 0 \<and> b = 0)" by auto
  with nz fl_of_int [OF False assms] show ?thesis
    by (simp add: jadd_def)
qed

lemma sample_sum:
  assumes "n \<le> 26" and "0 \<le> c" and "c \<le> 196"
  shows "jadd (Fin (196 * real n)) (Fin (real_of_int c)) = Fin (196 * real n + real_of_int c)"
proof -
  from assms have "\<bar>196 * int n + c\<bar> < 2 ^ 53" by simp
  from jadd_whole [OF this] show ?thesis by simp
qed

lemma sample_exposure:
  "n \<le> 26 \<Longrightarrow> getTotalExposure (sample_ledger_after n) = Fin (196 * real n)"
proof (induction n)
  case 0
  show ?case
    by (simp add: getTotalExposure_def getOpenPositions_def sample_ledger_after_def)
next
  case (Suc n)
  then have before: "getTotalExposure (sample_ledger_after n) = Fin (196 * real n)"
    by simp
  from Suc.prems sample_sum [of n 196]
  have sum: "jadd (Fin (196 * real n)) (Fin 196) = Fin (196 * real n + 196)"
    by simp
  have "getTotalExposure (sample_ledger_after (Suc n))
          = jadd (getTotalExposure (sample_ledger_after n)) (jmul (fl 0.98) (Fin 200))"
    by (simp add: getTotalExposure_def getOpenPositions_def sample_ledger_after_def
          sample_entry_def)
  with before sum show ?case
    by (simp add: fl_0_98 mul_d98_200 algebra_simps)
qed

lemma sample_market_free:
  "n < 26 \<Longrightarrow> getPositionsByMarket (sample_ledger_after n) (o_marketId (sample_opp n)) = []"
  by (auto simp add: getPositionsByMarket_def sample_ledger_after_def sample_entry_def
        sample_opp_def filter_empty_conv letter_inj)

lemma sample_trade_id_fresh:
  "n < 26 \<Longrightarrow> generateTradeId (sample_env n) \<notin> fst ` set (positions (sample_ledger_after n))"
  by (auto simp add: sample_ledger_after_def sample_entry_def sample_env_def letter_inj)

text \<open>
  The gate before the \<open>n\<close>-th opportunity of the run: it projects
  \<open>196 n + 100 \<times> 0.98 = 196 n + 98\<close>, which is at most 5000 for \<open>n \<le> 25\<close>.
\<close>

lemma sample_gate:
  assumes "n < 26"
  shows "fst (canOpenNewPosition default_config (sample_ledger_after n)
            (defaultOrderSize default_config) (o_currentPrice (sample_opp n)))"
proof -
  from assms have n: "n \<le> 26" by simp
  from n sample_sum [of n 98]
  have sum: "jadd (Fin (196 * real n)) (Fin 98) = Fin (196 * real n + 98)"
    by simp
  have price: "jmul (defaultOrderSize default_config) (o_currentPrice (sample_opp n)) = Fin 98"
    by (simp add: default_config_def sample_opp_def fl_0_98 mul_100_d98)
  from assms have "real n \<le> 25" by simp
  then have below: "\<not> jgt (Fin (196 * real n + 98)) (maxTotalExposure default_config)"
    by (simp add: jgt_def default_config_def)
  have loss: "\<not> jlt (dailyPnL (sample_ledger_after n)) (jneg (dailyLossLimit default_config))"
    by (simp add: sample_ledger_after_def default_config_def)
  show ?thesis
    using below loss
    by (simp add: canOpenNewPosition_def Let_def sample_exposure [OF n] price sum)
qed

text \<open>
  One step of the run: with fewer than 26 positions the gate lets the opportunity pass,
  the market has no open position yet, the order of 200 shares is matched, and the
  position is appended under its fresh id.
\<close>

lemma sample_step:
  assumes "n < 26"
  shows "onOpportunity default_config (sample_env n) ''Mon Nov 02 2026'' initial_executor
           (sample_ledger_after n) (sample_opp n) = sample_ledger_after (Suc n)"
proof -
  have matched:
    "fst (executeOpportunity default_config (sample_env n) initial_executor (sample_opp n))
      = Some \<lparr> t_id = generateTradeId (sample_env n), t_marketId = o_marketId (sample_opp n),
                t_tokenId = o_tokenId (sample_opp n), t_side = BUY, t_price = fl 0.98,
                t_size = Fin 200, t_timestamp = 1000 * int n, t_orderId = Some ''order'',
                t_status = MATCHED \<rparr>"
    by (simp add: executeOpportunity_def sample_size Let_def)
       (simp add: sample_env_def sample_opp_def initial_executor_def Let_def)
  have authenticated: "canTrade (sample_env n)"
    by (simp add: sample_env_def)
  have per_market: "maxPositionsPerMarket default_config = Fin 1"
    by (simp add: default_config_def)
  show ?thesis
    unfolding onOpportunity_def Let_def
    using sample_gate [OF assms] authenticated
    apply (simp add: sample_market_free [OF assms] matched per_market jge_def)
    apply (simp add: addPosition_def checkDailyReset_def Let_def
             update_fresh [OF sample_trade_id_fresh [OF assms]])
    apply (simp add: sample_ledger_after_def sample_entry_def)
    done
qed

lemma sample_run_ledger: "n \<le> 26 \<Longrightarrow> sample_run n = sample_ledger_after n"
proof (induction n)
  case 0
  show ?case
    by (simp add: sample_run_def sample_ledger_after_def initial_ledger_def initial_stats_def)
next
  case (Suc n)
  then show ?case by (simp add: sample_run_Suc sample_step)
qed

text \<open>
  C1. Under the default configuration (exposure ceiling 5000, base order size 100), 26
  opportunities at price 0.98 with expected profit 2 all pass the gate, which is asked
  with the base size (projected cost 98), while each order is sized by
  \<open>calculateOrderSize\<close> at 200 shares (cost 196). After the 25th \<open>addPosition\<close> the open
  exposure is 4900; after the 26th it is 5096, above the ceiling.
\<close>

theorem C1_exposure_exceeds_ceiling:
  "getTotalExposure (sample_run 25) = Fin 4900
   \<and> fst (canOpenNewPosition default_config (sample_run 25)
            (defaultOrderSize default_config) (o_currentPrice (sample_opp 25)))
   \<and> length (getOpenPositions (sample_run 26)) = 26
   \<and> getTotalExposure (sample_run 26) = Fin 5096
   \<and> jgt (getTotalExposure (sample_run 26)) (maxTotalExposure default_config)"
proof -
  have gate: "fst (canOpenNewPosition default_config (sample_run 25)
            (defaultOrderSize default_config) (o_currentPrice (sample_opp 25)))"
    using sample_gate [of 25] by (simp add: sample_run_ledger)
  have count: "length (getOpenPositions (sample_run 26)) = 26"
    by (simp add: sample_run_ledger getOpenPositions_def sample_ledger_after_def
          sample_entry_def)
  from gate count show ?thesis
    by (simp add: sample_run_ledger sample_exposure jgt_def default_config_def)
qed

section \<open>The risk gate on the day after a losing day\<close>

lemma sample_ids:
  "i < 26 \<Longrightarrow> j < 26 \<Longrightarrow>
     (generateTradeId (sample_env i) = generateTradeId (sample_env j)) = (i = j)"
  by (simp add: sample_env_def letter_inj)

lemma losing_day_positions:
  "positions losing_day =
     [(generateTradeId (sample_env 0), (snd (sample_entry 0))\<lparr>p_status := RESOLVED_LOSS\<rparr>),
      (generateTradeId (sample_env 1), (snd (sample_entry 1))\<lparr>p_status := RESOLVED_LOSS\<rparr>),
      (generateTradeId (sample_env 2), (snd (sample_entry 2))\<lparr>p_status := RESOLVED_LOSS\<rparr>)]"
  and losing_day_pnl: "dailyPnL losing_day = Fin (- 588)"
  and losing_day_date: "dailyStartDate losing_day = ''Mon Nov 02 2026''"
proof -
  let ?k0 = "generateTradeId (sample_env 0)"
  let ?k1 = "generateTradeId (sample_env 1)"
  let ?k2 = "generateTradeId (sample_env 2)"
  let ?p0 = "snd (sample_entry 0)" and ?p1 = "snd (sample_entry 1)"
    and ?p2 = "snd (sample_entry 2)"
  have upt3: "[0..<3] = [0, 1, 2::nat]"
    by (simp add: numeral_3_eq_3 numeral_2_eq_2 del: One_nat_def)
  have k01: "?k0 \<noteq> ?k1" and k02: "?k0 \<noteq> ?k2" and k12: "?k1 \<noteq> ?k2"
    by (simp_all add: sample_ids del: One_nat_def)
  have key: "fst (sample_entry i) = generateTradeId (sample_env i)" for i
    by (simp add: sample_entry_def del: One_nat_def)
  have loss: "jsub (Fin 0) (jmul (p_entryPrice (snd (sample_entry i))) (p_size (snd (sample_entry i))))
                = Fin (- 196)" for i
    by (simp add: sample_entry_def fl_0_98 mul_d98_200 sub_0_196 del: One_nat_def)
  let ?s0 = "sample_run 3"
  have s0p: "positions ?s0 = [sample_entry 0, sample_entry 1, sample_entry 2]"
    by (simp add: sample_run_ledger sample_ledger_after_def upt3 del: One_nat_def)
  have s0d: "dailyPnL ?s0 = Fin 0" "dailyStartDate ?s0 = ''Mon Nov 02 2026''"
    by (simp_all add: sample_run_ledger sample_ledger_after_def del: One_nat_def)
  let ?s1 = "fst (resolvePosition ?s0 ?k0 (Fin 0) False)"
  have m0: "map_of (positions ?s0) ?k0 = Some ?p0"
    by (simp add: s0p key del: One_nat_def)
  have s1p: "positions ?s1 =
      [(?k0, ?p0\<lparr>p_status := RESOLVED_LOSS\<rparr>), sample_entry 1, sample_entry 2]"
    by (simp add: resolvePosition_loss(1) [OF m0] s0p key del: One_nat_def)
  have s1d: "dailyPnL ?s1 = Fin (- 196)" "dailyStartDate ?s1 = ''Mon Nov 02 2026''"
    by (simp_all add: resolvePosition_loss(2,3) [OF m0] s0d loss add_0_m196 del: One_nat_def)
  let ?s2 = "fst (resolvePosition ?s1 ?k1 (Fin 0) False)"
  have m1: "map_of (positions ?s1) ?k1 = Some ?p1"
    using k01 by (simp add: s1p key del: One_nat_def)
  have s2p: "positions ?s2 = [(?k0, ?p0\<lparr>p_status := RESOLVED_LOSS\<rparr>),
      (?k1, ?p1\<lparr>p_status := RESOLVED_LOSS\<rparr>), sample_entry 2]"
    using k01 by (simp add: resolvePosition_loss(1) [OF m1] s1p key del: One_nat_def)
  have s2d: "dailyPnL ?s2 = Fin (- 392)" "dailyStartDate ?s2 = ''Mon Nov 02 2026''"
    by (simp_all add: resolvePosition_loss(2,3) [OF m1] s1d loss add_m196_m196 del: One_nat_def)
  let ?s3 = "fst (resolvePosition ?s2 ?k2 (Fin 0) False)"
  have m2: "map_of (positions ?s2) ?k2 = Some ?p2"
    using k02 k12 by (simp add: s2p key del: One_nat_def)
  have s3p: "positions ?s3 = [(?k0, ?p0\<lparr>p_status := RESOLVED_LOSS\<rparr>),
      (?k1, ?p1\<lparr>p_status := RESOLVED_LOSS\<rparr>), (?k2, ?p2\<lparr>p_status := RESOLVED_LOSS\<rparr>)]"
    using k02 k12 by (simp add: resolvePosition_loss(1) [OF m2] s2p key del: One_nat_def)
  have s3d: "dailyPnL ?s3 = Fin (- 588)" "dailyStartDate ?s3 = ''Mon Nov 02 2026''"
    by (simp_all add: resolvePosition_loss(2,3) [OF m2] s2d loss add_m392_m196 del: One_nat_def)
  have unfold: "losing_day = ?s3"
    by (simp add: losing_day_def)
  show "positions losing_day =
     [(?k0, ?p0\<lparr>p_status := RESOLVED_LOSS\<rparr>), (?k1, ?p1\<lparr>p_status := RESOLVED_LOSS\<rparr>),
      (?k2, ?p2\<lparr>p_status := RESOLVED_LOSS\<rparr>)]"
    unfolding unfold by (rule s3p)
  show "dailyPnL losing_day = Fin (- 588)"
    unfolding unfold by (rule s3d(1))
  show "dailyStartDate losing_day = ''Mon Nov 02 2026''"
    unfolding unfold by (rule s3d(2))
qed

text \<open>
  C8. On Monday the run opens three positions of 200 shares at 0.98 and all three
  resolve as losses, so the stored daily P&L is -588 and nothing is open. On Tuesday the
  realized P&L of the day is 0, which is what \<open>getDailyPnL\<close> reports after its reset, and
  an order of 100 shares at 0.98 projects an exposure of 98 against a ceiling of 5000.
  \<open>canOpenNewPosition\<close> still answers false: it compares Monday's -588, which no reset
  has cleared, with the loss limit of 500.
\<close>

theorem C8_stale_daily_loss_refuses:
  "dailyStartDate losing_day = ''Mon Nov 02 2026''
   \<and> dailyPnL losing_day = Fin (- 588)
   \<and> getOpenPositions losing_day = []
   \<and> jadd (getTotalExposure losing_day) (jmul (Fin 100) (fl 0.98)) = Fin 98
   \<and> \<not> jgt (Fin 98) (maxTotalExposure default_config)
   \<and> fst (getDailyPnL ''Tue Nov 03 2026'' losing_day) = Fin 0
   \<and> \<not> jlt (Fin 0) (jneg (dailyLossLimit default_config))
   \<and> fst (canOpenNewPosition default_config losing_day (Fin 100) (fl 0.98)) = False"
proof -
  have none_open: "getOpenPositions losing_day = []"
    by (simp add: getOpenPositions_def losing_day_positions)
  then have exposure: "getTotalExposure losing_day = Fin 0"
    by (simp add: getTotalExposure_def)
  have projected: "jadd (getTotalExposure losing_day) (jmul (Fin 100) (fl 0.98)) = Fin 98"
    by (simp add: exposure fl_0_98 mul_100_d98 add_0_98)
  have today: "fst (getDailyPnL ''Tue Nov 03 2026'' losing_day) = Fin 0"
    by (simp add: getDailyPnL_def checkDailyReset_def Let_def losing_day_date)
  have refused: "fst (canOpenNewPosition default_config losing_day (Fin 100) (fl 0.98)) = False"
    by (simp add: canOpenNewPosition_def Let_def projected losing_day_pnl)
       (simp add: default_config_def jgt_def)
  from none_open projected today refused show ?thesis
    by (simp add: losing_day_date losing_day_pnl default_config_def jgt_def)
qed

section \<open>Properties of the scanner\<close>

lemma ms_per_hour: "jmul (jmul (Fin 1000) (Fin 60)) (Fin 60) = Fin 3600000"
proof -
  have a: "fl 60000 = Fin 60000" using fl_of_int [of 60000] by simp
  have b: "fl 3600000 = Fin 3600000" using fl_of_int [of 3600000] by simp
  show ?thesis by (simp add: jmul_def a b)
qed

lemma jsub_int:
  "jsub (Fin (of_int e)) (Fin (of_int n)) = (if e = n then Fin 0 else fl (of_int (e - n)))"
  by (cases "n = 0") (auto simp add: jsub_def jadd_def)

lemma neg_hours:
  assumes "neg a"
  shows "neg (jdiv a (Fin 3600000))"
proof (cases a)
  case (Fin r)
  with assms have r: "r < 0" by simp
  then have "r / 3600000 < 0" by simp
  from fl_neg [OF this] Fin r show ?thesis by (simp add: jdiv_def)
qed (use assms in \<open>simp_all add: jdiv_def signed_zero_def signed_inf_def\<close>)

lemma neg_not_gt: "neg a \<Longrightarrow> 0 \<le> c \<Longrightarrow> \<not> jgt a (Fin c)"
  by (cases a) (simp_all add: jgt_def)

lemma hours_of_large:
  assumes grid: "of_int m * 2 powi (e - 52) = c"
    and lo: "2 powi e \<le> c" and hi: "c < 2 powi (e + 1)" and e: "- 1022 \<le> e"
    and gridq: "of_int m' * 2 powi (e' - 52) = c'"
    and loq: "2 powi e' \<le> c'" and hiq: "c' < 2 powi (e' + 1)" and e': "- 1022 \<le> e'"
    and cc': "c' \<le> c / 3600000"
    and cx: "c \<le> x"
  shows "jdiv (fl x) (Fin 3600000) = PInf
         \<or> (\<exists>r. jdiv (fl x) (Fin 3600000) = Fin r \<and> c' \<le> r)"
proof -
  from fl_ge [OF grid lo hi e cx]
  consider "fl x = PInf" | r where "fl x = Fin r" "c \<le> r" by blast
  then show ?thesis
  proof cases
    case 1
    then show ?thesis by (simp add: jdiv_def signed_inf_def)
  next
    case 2
    have "(0::real) < 2 powi e" by simp
    with lo 2 have rpos: "0 < r" by linarith
    from 2 cc' have "c' \<le> r / 3600000" by simp
    from fl_ge [OF gridq loq hiq e' this] 2 rpos show ?thesis
      by (simp add: jdiv_def)
  qed
qed

lemma hours_positive:
  assumes "0 < d"
  shows "jgt (jdiv (fl (of_int d)) (Fin 3600000)) (Fin 0)"
proof -
  from assms have "1 \<le> d" by simp
  then have "real_of_int 1 \<le> real_of_int d" by (simp only: of_int_le_iff)
  then have d1: "1 \<le> real_of_int d" by simp
  have "jdiv (fl (of_int d)) (Fin 3600000) = PInf
         \<or> (\<exists>r. jdiv (fl (of_int d)) (Fin 3600000) = Fin r \<and> 2 powi (- 22) \<le> r)"
    by (rule hours_of_large [where m = "2 ^ 52" and e = 0 and c = 1
          and m' = "2 ^ 52" and e' = "- 22", OF _ _ _ _ _ _ _ _ _ d1])
       (simp_all add: power_int_minus)
  moreover have "(0::real) < 2 powi (- 22)" by simp
  ultimately show ?thesis by (auto simp add: jgt_def)
qed

lemma hours_beyond_a_day:
  assumes "86400000 < d"
  shows "jgt (jdiv (fl (of_int d)) (Fin 3600000)) (Fin 24)"
proof -
  from assms have "86400001 \<le> d" by simp
  then have "real_of_int 86400001 \<le> real_of_int d" by (simp only: of_int_le_iff)
  then have d1: "86400001 \<le> real_of_int d" by simp
  have "jdiv (fl (of_int d)) (Fin 3600000) = PInf
         \<or> (\<exists>r. jdiv (fl (of_int d)) (Fin 3600000) = Fin r \<and> 24 + 1 / 2 ^ 22 \<le> r)"
    by (rule hours_of_large [where m = "86400001 * 2 ^ 26" and e = 26 and c = 86400001
          and m' = "24 * 2 ^ 48 + 2 ^ 26" and e' = 4, OF _ _ _ _ _ _ _ _ _ d1])
       (simp_all add: power_int_minus)
  then show ?thesis by (auto simp add: jgt_def)
qed

lemma hours_within_a_day:
  assumes "0 < d" and "d \<le> 86400000"
  shows "\<exists>r. jdiv (fl (of_int d)) (Fin 3600000) = Fin r \<and> 0 < r \<and> r \<le> 24"
proof -
  from assms have "d \<noteq> 0" "\<bar>d\<bar> < 2 ^ 53" by simp_all
  from fl_of_int [OF this] have exact: "fl (of_int d) = Fin (of_int d)" .
  from assms(1) have "1 \<le> d" by simp
  then have "real_of_int 1 \<le> real_of_int d" by (simp only: of_int_le_iff)
  then have d1: "1 \<le> real_of_int d" by simp
  from assms(2) have "real_of_int d \<le> real_of_int 86400000" by (simp only: of_int_le_iff)
  then have d2: "real_of_int d \<le> 86400000" by simp
  have tiny: "(2::real) powi (- 1022) \<le> 2 powi (- 22)"
    by (intro power_int_increasing) simp_all
  have "(2::real) powi (- 22) \<le> 1 / 3600000" by (simp add: power_int_minus)
  also have "\<dots> \<le> real_of_int d / 3600000" using d1 by simp
  finally have "(2::real) powi (- 22) \<le> real_of_int d / 3600000" .
  with tiny have normal: "(2::real) powi (- 1022) \<le> real_of_int d / 3600000" by linarith
  from d2 have le: "real_of_int d / 3600000 \<le> 24" by simp
  have "\<exists>r. fl (real_of_int d / 3600000) = Fin r \<and> 0 < r \<and> r \<le> 24"
    by (rule fl_le [where m = "24 * 2 ^ 48" and e = 4, OF _ _ _ _ normal le])
       (simp_all add: power_int_minus)
  with exact d1 show ?thesis by (simp add: jdiv_def)
qed

lemma hours_not_positive:
  assumes "d < 0"
  shows "neg (jdiv (fl (of_int d)) (Fin 3600000))"
proof -
  from assms have "real_of_int d < 0" by simp
  from neg_hours [OF fl_neg [OF this]] show ?thesis .
qed

text \<open>
  The time to end in hours, as the source computes it from two whole numbers of
  milliseconds, compares with 0 and with 24 as the exact quotient does.
\<close>

lemma hoursUntilEnd:
  fixes endMs nowMs :: int
  defines "h \<equiv> jdiv (jsub (Fin (of_int endMs)) (Fin (of_int nowMs)))
                    (jmul (jmul (Fin 1000) (Fin 60)) (Fin 60))"
  shows "(jgt h (Fin 0) \<and> jle h (Fin 24)) = (0 < endMs - nowMs \<and> endMs - nowMs \<le> 86400000)"
    and "jgt h (Fin 24) = (86400000 < endMs - nowMs)"
proof -
  let ?d = "endMs - nowMs"
  consider "?d = 0" | "?d < 0" | "0 < ?d" "?d \<le> 86400000" | "86400000 < ?d" by linarith
  then have "(jgt h (Fin 0) \<and> jle h (Fin 24)) = (0 < ?d \<and> ?d \<le> 86400000)
             \<and> jgt h (Fin 24) = (86400000 < ?d)"
  proof cases
    case 1
    then have "h = Fin 0"
      by (simp add: h_def ms_per_hour jsub_int jdiv_def signed_zero_def)
    with 1 show ?thesis by (simp add: jgt_def)
  next
    case 2
    then have h: "h = jdiv (fl (of_int ?d)) (Fin 3600000)"
      by (simp add: h_def ms_per_hour jsub_int)
    from hours_not_positive [OF 2] h have "neg h" by simp
    from neg_not_gt [OF this, of 0] neg_not_gt [OF this, of 24] 2
    show ?thesis by simp
  next
    case 3
    then have h: "h = jdiv (fl (of_int ?d)) (Fin 3600000)"
      by (simp add: h_def ms_per_hour jsub_int)
    from hours_within_a_day [OF 3] h obtain r where "h = Fin r" "0 < r" "r \<le> 24"
      by auto
    with 3 show ?thesis by (simp add: jgt_def)
  next
    case 4
    then have h: "h = jdiv (fl (of_int ?d)) (Fin 3600000)"
      by (simp add: h_def ms_per_hour jsub_int)
    from hours_beyond_a_day [OF 4] h have gt: "jgt h (Fin 24)" by simp
    then have "\<not> jle h (Fin 24)" by (cases h) (simp_all add: jgt_def)
    with gt 4 show ?thesis by simp
  qed
  then show "(jgt h (Fin 0) \<and> jle h (Fin 24)) = (0 < ?d \<and> ?d \<le> 86400000)"
    and "jgt h (Fin 24) = (86400000 < ?d)" by simp_all
qed

text \<open>
  The loop body of \<open>filterEligibleMarkets\<close> pushes a market exactly when the rule of the
  specification holds of it; its two branches exclude each other, so no market is pushed
  twice.
\<close>

lemma filterEligibleMarkets_Cons:
  "filterEligibleMarkets cfg getTime nowMs (market # markets) =
     (if eligible_spec cfg getTime nowMs market then [market] else [])
       @ filterEligibleMarkets cfg getTime nowMs markets"
proof (cases "\<not> m_active market \<or> m_closed market \<or> m_archived market")
  case True
  then have "\<not> eligible_spec cfg getTime nowMs market"
    by (auto simp add: eligible_spec_def)
  with True show ?thesis by simp
next
  case False
  show ?thesis
  proof (cases "getTime (m_endDate market)")
    case None
    then have "\<not> eligible_spec cfg getTime nowMs market"
      by (simp add: eligible_spec_def)
    moreover have "jdiv (jsub NaN (Fin (of_int nowMs)))
                     (jmul (jmul (Fin 1000) (Fin 60)) (Fin 60)) = NaN"
      by (simp add: jsub_def jadd_def jdiv_def)
    ultimately show ?thesis
      using False None by (simp add: Let_def jgt_def)
  next
    case (Some endMs)
    let ?d = "endMs - nowMs"
    let ?near = "0 < ?d \<and> ?d \<le> 86400000
                   \<and> list_ex (\<lambda>t. jge (tk_price t) (minCertaintyPrice cfg)) (m_tokens market)"
    let ?far = "?d > 86400000 \<and> list_ex (\<lambda>t. jge (tk_price t) (fl 0.99)) (m_tokens market)"
    let ?h = "jdiv (jsub (Fin (of_int endMs)) (Fin (of_int nowMs)))
                (jmul (jmul (Fin 1000) (Fin 60)) (Fin 60))"
    have raw: "filterEligibleMarkets cfg getTime nowMs (market # markets) =
        (if (jgt ?h (Fin 0) \<and> jle ?h (Fin 24))
              \<and> list_ex (\<lambda>t. jge (tk_price t) (minCertaintyPrice cfg)) (m_tokens market)
         then [market] else [])
        @ (if jgt ?h (Fin 24) \<and> list_ex (\<lambda>t. jge (tk_price t) (fl 0.99)) (m_tokens market)
           then [market] else [])
        @ filterEligibleMarkets cfg getTime nowMs markets"
      using False Some by (simp add: Let_def)
    have unfolded: "filterEligibleMarkets cfg getTime nowMs (market # markets) =
        (if ?near then [market] else []) @ (if ?far then [market] else [])
          @ filterEligibleMarkets cfg getTime nowMs markets"
      unfolding raw hoursUntilEnd [of endMs nowMs] by simp
    have spec: "eligible_spec cfg getTime nowMs market = (?near \<or> ?far)"
      using False Some by (simp add: eligible_spec_def list_ex_iff)
    have excl: "\<not> (?near \<and> ?far)" by linarith
    show ?thesis
    proof (cases ?near)
      case True
      with excl have "\<not> ?far" by blast
      with True unfolded spec show ?thesis by simp
    next
      case False
      with unfolded spec show ?thesis by simp
    qed
  qed
qed

lemma set_filterEligibleMarkets:
  "set (filterEligibleMarkets cfg getTime nowMs markets) =
     {m \<in> set markets. eligible_spec cfg getTime nowMs m}"
proof (induction markets)
  case Nil
  show ?case by simp
next
  case (Cons market markets)
  show ?case
    unfolding filterEligibleMarkets_Cons using Cons.IH by auto
qed

lemma keys_addEligible:
  "fst ` set (addEligible nowMs watched eligibleMarkets) =
     fst ` set watched \<union> m_id ` set eligibleMarkets"
proof (induction eligibleMarkets arbitrary: watched)
  case Nil
  show ?case by simp
next
  case (Cons market eligibleMarkets)
  show ?case
  proof (cases "map_of watched (m_id market)")
    case None
    then show ?thesis by (simp add: Cons.IH dom_update)
  next
    case (Some w)
    then have "m_id market \<in> fst ` set watched"
      by (meson domI domIff map_of_eq_None_iff)
    with Some show ?thesis by (auto simp add: Cons.IH)
  qed
qed

lemma set_removeIneligible:
  "set (removeIneligible eligibleMarkets entries watched) =
     {(k, v) \<in> set watched. \<not> (k \<in> fst ` set entries \<and> k \<notin> m_id ` set eligibleMarkets)}"
proof (induction entries arbitrary: watched)
  case Nil
  show ?case by auto
next
  case (Cons entry entries)
  obtain ident market where entry: "entry = (ident, market)" by (cases entry)
  show ?case
  proof (cases "List.find (\<lambda>m. m_id m = ident) eligibleMarkets")
    case None
    then have "ident \<notin> m_id ` set eligibleMarkets"
      by (auto simp add: find_None_iff)
    with None entry show ?thesis
      by (auto simp add: Cons.IH AList.delete_eq)
  next
    case (Some m)
    then have "ident \<in> m_id ` set eligibleMarkets"
      by (auto simp add: find_Some_iff)
    with Some entry show ?thesis
      by (auto simp add: Cons.IH)
  qed
qed

lemma keys_scan:
  "fst ` set (scan cfg getTime nowMs (Some markets) watched) =
     m_id ` {m \<in> set markets. eligible_spec cfg getTime nowMs m}"
proof -
  let ?E = "filterEligibleMarkets cfg getTime nowMs markets"
  let ?A = "addEligible nowMs watched ?E"
  have "fst ` set (removeIneligible ?E ?A ?A) = fst ` set ?A \<inter> m_id ` set ?E"
    by (force simp add: set_removeIneligible)
  also have "\<dots> = m_id ` set ?E"
    by (auto simp add: keys_addEligible)
  finally show ?thesis
    by (simp add: scan_def Let_def set_filterEligibleMarkets)
qed

text \<open>
  C6. After a scan that fetched a market set, the ids on the watchlist are exactly the
  ids of the fetched markets that satisfy the eligibility rule (active, not closed, not
  archived, and a time to end in (0, 24h] with a token at the certainty threshold or a
  time to end beyond 24h with a token at 0.99 or more); so a market watched before that
  now fails the rule is gone after that scan.
\<close>

theorem C6_watchlist_is_the_eligible_set:
  "fst ` set (scan cfg getTime nowMs (Some markets) watched) =
     m_id ` {m \<in> set markets. eligible_spec cfg getTime nowMs m}
   \<and> (\<forall>k \<in> fst ` set watched.
         k \<notin> m_id ` {m \<in> set markets. eligible_spec cfg getTime nowMs m} \<longrightarrow>
         k \<notin> fst ` set (scan cfg getTime nowMs (Some markets) watched))"
  by (simp add: keys_scan)

lemma sample_eligible:
  "eligible_spec default_config sample_getTime sample_now market_near"
  "\<not> eligible_spec default_config sample_getTime sample_now market_far"
  by (simp_all add: eligible_spec_def default_config_def sample_getTime_def sample_now_def
        market_near_def market_far_def sample_tokens_def jge_def
        fl_0_98 fl_0_985 fl_0_015 fl_0_99)

theorem C6_watchlist_is_the_eligible_set_witness:
  "''far'' \<in> fst ` set sample_watched
   \<and> eligible_spec default_config sample_getTime sample_now market_near
   \<and> \<not> eligible_spec default_config sample_getTime sample_now market_far
   \<and> fst ` set (scan default_config sample_getTime sample_now
                  (Some [market_near, market_far]) sample_watched) = {''near''}"
proof -
  have only_near:
    "{m \<in> set [market_near, market_far].
        eligible_spec default_config sample_getTime sample_now m} = {market_near}"
    using sample_eligible by auto
  have near_id: "m_id market_near = ''near''"
    by (simp add: market_near_def)
  have far_watched: "''far'' \<in> fst ` set sample_watched"
    by (simp add: sample_watched_def)
  from C6_watchlist_is_the_eligible_set
         [of default_config sample_getTime sample_now "[market_near, market_far]" sample_watched]
  show ?thesis
    using only_near near_id far_watched sample_eligible by simp
qed

section \<open>Properties of the detector\<close>

lemma findMarketInfo_found:
  "\<exists>(ident, market) \<in> set markets. \<exists>t \<in> set (m_tokens (wm_market market)). tk_tokenId t = tokenId
   \<Longrightarrow> \<exists>ident market t. (ident, market) \<in> set markets \<and> t \<in> set (m_tokens (wm_market market))
         \<and> tk_tokenId t = tokenId \<and> findMarketInfo markets tokenId = (ident, tk_outcome t)"
proof (induction markets)
  case Nil
  then show ?case by simp
next
  case (Cons entry markets)
  obtain ident market where entry: "entry = (ident, market)" by (cases entry)
  show ?case
  proof (cases "List.find (\<lambda>t. tk_tokenId t = tokenId) (m_tokens (wm_market market))")
    case None
    then have "\<not> (\<exists>t \<in> set (m_tokens (wm_market market)). tk_tokenId t = tokenId)"
      by (auto simp add: find_None_iff)
    with Cons.prems entry
    have "\<exists>(ident, market) \<in> set markets.
            \<exists>t \<in> set (m_tokens (wm_market market)). tk_tokenId t = tokenId"
      by auto
    from Cons.IH [OF this] None entry show ?thesis by auto
  next
    case (Some token)
    then have "token \<in> set (m_tokens (wm_market market)) \<and> tk_tokenId token = tokenId"
      by (auto simp add: find_Some_iff)
    with Some entry show ?thesis by auto
  qed
qed

lemma findMarketInfo_not_found:
  "\<not> (\<exists>(ident, market) \<in> set markets.
        \<exists>t \<in> set (m_tokens (wm_market market)). tk_tokenId t = tokenId)
   \<Longrightarrow> findMarketInfo markets tokenId = ('''', '''')"
proof (induction markets)
  case Nil
  show ?case by simp
next
  case (Cons entry markets)
  obtain ident market where entry: "entry = (ident, market)" by (cases entry)
  from Cons.prems entry
  have here: "List.find (\<lambda>t. tk_tokenId t = tokenId) (m_tokens (wm_market market)) = None"
    by (auto simp add: find_None_iff)
  from Cons.prems have "\<not> (\<exists>(ident, market) \<in> set markets.
      \<exists>t \<in> set (m_tokens (wm_market market)). tk_tokenId t = tokenId)"
    by auto
  from Cons.IH [OF this] here entry show ?case by simp
qed

lemma analyzeOpportunity_Some:
  assumes "analyzeOpportunity parseFloat cfg markets nowMs tokenId orderBook = Some opp"
  shows "o_tokenId opp = tokenId
         \<and> (o_marketId opp, o_outcome opp) = findMarketInfo markets tokenId"
  using assms
  by (auto simp add: analyzeOpportunity_def Let_def
        split: list.splits if_splits prod.splits)

lemma handleBookUpdate_Some:
  assumes "handleBookUpdate parseFloat cfg markets nowMs nowIso data = Some opp"
  shows "\<exists>orderBook.
           analyzeOpportunity parseFloat cfg markets nowMs (bm_asset_id data) orderBook = Some opp"
  using assms
  by (auto simp add: handleBookUpdate_def Let_def split: option.splits list.splits if_splits)

text \<open>
  C5. \<open>analyzeOpportunity\<close> emits an opportunity for an order book exactly when the book
  has a first ask whose price lies in \<open>[minCertaintyPrice, maxBuyPrice]\<close>, whose size is at
  least the book's minimum order size, and whose expected profit
  \<open>(1 - askPrice) \<times> min(askSize, maxPositionSize)\<close>, computed in doubles as the code
  computes it, is at least \<open>minProfitThreshold\<close>; the opportunity emitted carries that
  price and that expected profit.
\<close>

theorem C5_opportunity_rule:
  "(analyzeOpportunity parseFloat cfg markets nowMs tokenId orderBook \<noteq> None) =
     (\<exists>ask rest.
        ob_asks orderBook = ask # rest
        \<and> jge (parseFloat (pl_price ask)) (minCertaintyPrice cfg)
        \<and> jle (parseFloat (pl_price ask)) (maxBuyPrice cfg)
        \<and> jge (parseFloat (pl_size ask)) (parseFloat (ob_minOrderSize orderBook))
        \<and> jge (jmul (jsub (Fin 1) (parseFloat (pl_price ask)))
                     (jmin (parseFloat (pl_size ask)) (maxPositionSize cfg)))
                (minProfitThreshold cfg))
   \<and> (\<forall>opp ask rest.
         analyzeOpportunity parseFloat cfg markets nowMs tokenId orderBook = Some opp
         \<and> ob_asks orderBook = ask # rest \<longrightarrow>
         o_currentPrice opp = parseFloat (pl_price ask)
         \<and> o_expectedProfit opp =
             jmul (jsub (Fin 1) (parseFloat (pl_price ask)))
                  (jmin (parseFloat (pl_size ask)) (maxPositionSize cfg)))"
  by (auto simp add: analyzeOpportunity_def Let_def
        split: list.splits if_splits prod.splits)

lemma sample_book_emits:
  "analyzeOpportunity sample_parseFloat default_config sample_watched sample_now tokenId
     (sample_book assetId)
   = Some (sample_emitted (fst (findMarketInfo sample_watched tokenId)) tokenId
             (snd (findMarketInfo sample_watched tokenId)))"
  by (simp add: analyzeOpportunity_def sample_parseFloat_def default_config_def Let_def
        sample_emitted_def sample_book_def jge_def jmin_def split_beta
        fl_0_99 fl_0_98 fl_0_995 fl_0_005 sub_1_d99 mul_gap_100 mul_d99_100)

lemma sample_found: "findMarketInfo sample_watched ''tok-yes'' = (''far'', ''Yes'')"
  by (simp add: sample_watched_def market_far_before_def market_far_def sample_tokens_def)

lemma sample_not_found: "findMarketInfo sample_watched ''tok-old'' = ('''', '''')"
  by (simp add: sample_watched_def market_far_before_def market_far_def sample_tokens_def)

text \<open>
  The rule at work under the default configuration. A best ask of 100 shares at 0.99 is
  emitted with expected profit \<open>1 + 2^-50\<close>. A best ask of 0.4 shares at 0.9875 is not
  emitted: in exact arithmetic its profit, 0.0125 times 0.4, equals the threshold 0.005,
  but the product of the doubles is 0.004999999999999983, below the double 0.005. A best
  ask of infinite size at 0.99 is emitted with the profit of 500 shares. A book with no
  ask emits nothing.
\<close>

theorem C5_opportunity_rule_witness:
  "analyzeOpportunity sample_parseFloat default_config sample_watched sample_now ''tok-yes''
     (sample_book ''tok-yes'') = Some (sample_emitted ''far'' ''tok-yes'' ''Yes'')
   \<and> o_expectedProfit (sample_emitted ''far'' ''tok-yes'' ''Yes'')
       = jmul (jsub (Fin 1) (fl 0.99)) (jmin (Fin 100) (maxPositionSize default_config))
   \<and> analyzeOpportunity sample_parseFloat default_config sample_watched sample_now ''tok-yes''
       (thin_book ''tok-yes'') = None
   \<and> jmul (jsub (Fin 1) (fl 0.9875)) (fl 0.4)
       = Fin (5764607523034215 / 1152921504606846976)
   \<and> minProfitThreshold default_config = Fin (5764607523034235 / 1152921504606846976)
   \<and> map_option o_expectedProfit
        (analyzeOpportunity sample_parseFloat default_config sample_watched sample_now
           ''tok-yes''
           ((sample_book ''tok-yes'')
              \<lparr> ob_asks := [\<lparr> pl_price = ''0.99'', pl_size = ''Infinity'' \<rparr>] \<rparr>))
       = Some (Fin (5629499534213125 / 1125899906842624))
   \<and> analyzeOpportunity sample_parseFloat default_config sample_watched sample_now ''tok-yes''
       ((sample_book ''tok-yes'')\<lparr> ob_asks := [] \<rparr>) = None"
proof -
  have emitted: "analyzeOpportunity sample_parseFloat default_config sample_watched sample_now
      ''tok-yes'' (sample_book ''tok-yes'') = Some (sample_emitted ''far'' ''tok-yes'' ''Yes'')"
    by (simp add: sample_book_emits sample_found)
  have profit: "o_expectedProfit (sample_emitted ''far'' ''tok-yes'' ''Yes'')
       = jmul (jsub (Fin 1) (fl 0.99)) (jmin (Fin 100) (maxPositionSize default_config))"
    using C5_opportunity_rule [of sample_parseFloat default_config sample_watched sample_now
            "''tok-yes''" "sample_book ''tok-yes''"] emitted
    by (simp add: sample_book_def sample_parseFloat_def)
  have product: "jmul (jsub (Fin 1) (fl 0.9875)) (fl 0.4)
       = Fin (5764607523034215 / 1152921504606846976)"
    by (simp add: fl_0_9875 fl_0_4 sub_1_d9875 mul_gap_d04)
  have thin: "analyzeOpportunity sample_parseFloat default_config sample_watched sample_now
      ''tok-yes'' (thin_book ''tok-yes'') = None"
    by (simp add: analyzeOpportunity_def sample_parseFloat_def default_config_def Let_def
          thin_book_def sample_book_def jge_def jmin_def
          fl_0_9875 fl_0_4 fl_0_1 fl_0_98 fl_0_995 fl_0_005 sub_1_d9875 mul_gap_d04)
  have threshold: "minProfitThreshold default_config
       = Fin (5764607523034235 / 1152921504606846976)"
    by (simp add: default_config_def fl_0_005)
  have unbounded: "map_option o_expectedProfit
        (analyzeOpportunity sample_parseFloat default_config sample_watched sample_now
           ''tok-yes''
           ((sample_book ''tok-yes'')
              \<lparr> ob_asks := [\<lparr> pl_price = ''0.99'', pl_size = ''Infinity'' \<rparr>] \<rparr>))
       = Some (Fin (5629499534213125 / 1125899906842624))"
    by (simp add: analyzeOpportunity_def sample_parseFloat_def default_config_def Let_def
          sample_book_def jge_def jmin_def split_beta
          fl_0_99 fl_0_98 fl_0_995 fl_0_005 sub_1_d99 mul_gap_500)
  have empty: "analyzeOpportunity sample_parseFloat default_config sample_watched sample_now
      ''tok-yes'' ((sample_book ''tok-yes'')\<lparr> ob_asks := [] \<rparr>) = None"
    by (simp add: analyzeOpportunity_def)
  from emitted profit product thin threshold unbounded empty show ?thesis
    by blast
qed

text \<open>
  C2, as the code has it. An opportunity emitted for a token id carries that id. When
  some watched market holds a token with the id, \<open>marketId\<close> and \<open>outcome\<close> are those of
  such a market and token; when none does, the opportunity is emitted all the same, with
  both left empty.
\<close>

theorem C2_market_resolved_when_watched:
  assumes "analyzeOpportunity parseFloat cfg markets nowMs tokenId orderBook = Some opp
           \<or> (handleBookUpdate parseFloat cfg markets nowMs nowIso data = Some opp
               \<and> tokenId = bm_asset_id data)"
  shows "o_tokenId opp = tokenId
         \<and> (references_watched markets opp \<longrightarrow>
              (\<exists>ident market t. (ident, market) \<in> set markets
                 \<and> t \<in> set (m_tokens (wm_market market)) \<and> tk_tokenId t = tokenId
                 \<and> o_marketId opp = ident \<and> o_outcome opp = tk_outcome t))
         \<and> (\<not> references_watched markets opp \<longrightarrow> o_marketId opp = '''' \<and> o_outcome opp = '''')"
proof -
  from assms obtain ob where
    "analyzeOpportunity parseFloat cfg markets nowMs tokenId ob = Some opp"
    using handleBookUpdate_Some by blast
  then have tok: "o_tokenId opp = tokenId"
    and info: "(o_marketId opp, o_outcome opp) = findMarketInfo markets tokenId"
    using analyzeOpportunity_Some by blast+
  show ?thesis
  proof (cases "references_watched markets opp")
    case True
    with tok have "\<exists>(ident, market) \<in> set markets.
        \<exists>t \<in> set (m_tokens (wm_market market)). tk_tokenId t = tokenId"
      by (simp add: references_watched_def)
    from findMarketInfo_found [OF this] info tok True show ?thesis
      by (metis prod.inject)
  next
    case False
    with tok have "\<not> (\<exists>(ident, market) \<in> set markets.
        \<exists>t \<in> set (m_tokens (wm_market market)). tk_tokenId t = tokenId)"
      by (simp add: references_watched_def)
    from findMarketInfo_not_found [OF this] info tok False show ?thesis
      by simp
  qed
qed

text \<open>
  What \<open>handleBookUpdate\<close> does with the sample message: the best ask passes the price
  pre-check and the book built from the message is analysed for the message's asset id.
\<close>

lemma sample_message_handled:
  "handleBookUpdate sample_parseFloat default_config sample_watched sample_now
       ''2026-11-02T00:00:00.000Z'' (sample_message assetId)
     = analyzeOpportunity sample_parseFloat default_config sample_watched sample_now assetId
         ((sample_book assetId)\<lparr> ob_timestamp := ''2026-11-02T00:00:00.000Z'' \<rparr>)"
  by (simp add: handleBookUpdate_def sample_message_def sample_parseFloat_def
        default_config_def orElse_def Let_def sample_book_def jge_def
        fl_0_99 fl_0_98 fl_0_995)

lemma sample_message_emits:
  "handleBookUpdate sample_parseFloat default_config sample_watched sample_now
       ''2026-11-02T00:00:00.000Z'' (sample_message tokenId)
   = Some (sample_emitted (fst (findMarketInfo sample_watched tokenId)) tokenId
             (snd (findMarketInfo sample_watched tokenId)))"
proof -
  have same: "(sample_book tokenId)\<lparr> ob_timestamp := ''2026-11-02T00:00:00.000Z'' \<rparr>
                = sample_book tokenId"
    by (simp add: sample_book_def)
  show ?thesis
    unfolding sample_message_handled same by (rule sample_book_emits)
qed

theorem C2_market_resolved_when_watched_witness:
  "handleBookUpdate sample_parseFloat default_config sample_watched sample_now
       ''2026-11-02T00:00:00.000Z'' (sample_message ''tok-yes'')
     = Some (sample_emitted ''far'' ''tok-yes'' ''Yes'')
   \<and> references_watched sample_watched (sample_emitted ''far'' ''tok-yes'' ''Yes'')
   \<and> o_marketId (sample_emitted ''far'' ''tok-yes'' ''Yes'') = ''far''
   \<and> o_outcome (sample_emitted ''far'' ''tok-yes'' ''Yes'') = ''Yes''"
proof -
  have emitted: "handleBookUpdate sample_parseFloat default_config sample_watched sample_now
       ''2026-11-02T00:00:00.000Z'' (sample_message ''tok-yes'')
     = Some (sample_emitted ''far'' ''tok-yes'' ''Yes'')"
    by (simp add: sample_message_emits sample_found)
  have asset: "bm_asset_id (sample_message ''tok-yes'') = ''tok-yes''"
    by (simp add: sample_message_def)
  have watched: "references_watched sample_watched (sample_emitted ''far'' ''tok-yes'' ''Yes'')"
    by (simp add: references_watched_def sample_emitted_def sample_watched_def
          market_far_before_def market_far_def sample_tokens_def)
  from C2_market_resolved_when_watched
         [of sample_parseFloat default_config sample_watched sample_now "''tok-yes''"
             "sample_book ''tok-yes''" "sample_emitted ''far'' ''tok-yes'' ''Yes''"
             "''2026-11-02T00:00:00.000Z''" "sample_message ''tok-yes''"]
       emitted asset watched
  show ?thesis
    by (simp add: sample_emitted_def)
qed

text \<open>
  The specification has every emitted opportunity reference a watched token. A book
  message for \<open>tok-old\<close>, a token of no watched market, passes the rule and is emitted
  with an empty \<open>marketId\<close> and \<open>outcome\<close>.
\<close>

theorem C2_unwatched_token_emitted:
  "handleBookUpdate sample_parseFloat default_config sample_watched sample_now
       ''2026-11-02T00:00:00.000Z'' (sample_message ''tok-old'')
     = Some (sample_emitted '''' ''tok-old'' '''')
   \<and> \<not> references_watched sample_watched (sample_emitted '''' ''tok-old'' '''')"
  by (simp add: sample_message_emits sample_not_found)
     (simp add: references_watched_def sample_emitted_def sample_watched_def
        market_far_before_def market_far_def sample_tokens_def)

section \<open>Properties of the feed\<close>

lemma afterCloses_fields:
  "reconnectAttempts ws = 0 \<Longrightarrow> n \<le> maxReconnectAttempts ws \<Longrightarrow>
     reconnectAttempts (afterCloses n ws) = n
     \<and> maxReconnectAttempts (afterCloses n ws) = maxReconnectAttempts ws
     \<and> reconnectDelay (afterCloses n ws) = reconnectDelay ws"
  by (induction n)
     (auto simp add: closeRound_def onClose_def attemptReconnect_def connect_def Let_def
        split: prod.splits)

text \<open>
  C9. From a feed with no failed attempt on its count (as after a successful open), with
  the bound of 10 attempts and the base delay of 1000 ms: the \<open>n\<close>-th consecutive close,
  for \<open>n\<close> from 1 to 10, sleeps \<open>1000 \<times> 2^(n-1)\<close> ms and then calls \<open>connect\<close>; the 11th
  emits \<open>max_reconnect_failed\<close> and calls \<open>connect\<close> no more.
\<close>

theorem C9_reconnect_backoff:
  assumes "reconnectAttempts ws = 0" and "maxReconnectAttempts ws = 10"
    and "reconnectDelay ws = 1000"
  shows "(\<forall>n. 1 \<le> n \<and> n \<le> 10 \<longrightarrow>
            snd (closeRound (afterCloses (n - 1) ws))
              = [Emit ''disconnected'', Wait (1000 * 2 ^ (n - 1)), Connect])
         \<and> snd (closeRound (afterCloses 10 ws))
              = [Emit ''disconnected'', Emit ''max_reconnect_failed'']
         \<and> Connect \<notin> set (snd (closeRound (afterCloses 10 ws)))"
proof -
  have attempt: "snd (closeRound (afterCloses (n - 1) ws))
      = [Emit ''disconnected'', Wait (1000 * 2 ^ (n - 1)), Connect]"
    if "1 \<le> n" "n \<le> 10" for n
  proof -
    from that assms have "n - 1 \<le> maxReconnectAttempts ws" by simp
    from afterCloses_fields [OF assms(1) this] assms that show ?thesis
      by (simp add: closeRound_def onClose_def attemptReconnect_def Let_def split: prod.splits)
  qed
  have exhausted: "snd (closeRound (afterCloses 10 ws))
      = [Emit ''disconnected'', Emit ''max_reconnect_failed'']"
    using afterCloses_fields [OF assms(1), of 10] assms
    by (simp add: closeRound_def onClose_def attemptReconnect_def Let_def split: prod.splits)
  from attempt exhausted show ?thesis by simp
qed

theorem C9_reconnect_backoff_witness:
  "reconnectAttempts initial_feed = 0 \<and> maxReconnectAttempts initial_feed = 10
   \<and> reconnectDelay initial_feed = 1000
   \<and> snd (closeRound (afterCloses 0 initial_feed))
        = [Emit ''disconnected'', Wait 1000, Connect]
   \<and> snd (closeRound (afterCloses 3 initial_feed))
        = [Emit ''disconnected'', Wait 8000, Connect]
   \<and> snd (closeRound (afterCloses 9 initial_feed))
        = [Emit ''disconnected'', Wait 512000, Connect]
   \<and> snd (closeRound (afterCloses 10 initial_feed))
        = [Emit ''disconnected'', Emit ''max_reconnect_failed'']"
proof -
  have fields: "reconnectAttempts initial_feed = 0" "maxReconnectAttempts initial_feed = 10"
    "reconnectDelay initial_feed = 1000"
    by (simp_all add: initial_feed_def)
  from C9_reconnect_backoff [OF fields] have
    every: "\<And>n. 1 \<le> n \<and> n \<le> 10 \<Longrightarrow> snd (closeRound (afterCloses (n - 1) initial_feed))
              = [Emit ''disconnected'', Wait (1000 * 2 ^ (n - 1)), Connect]"
    and last: "snd (closeRound (afterCloses 10 initial_feed))
              = [Emit ''disconnected'', Emit ''max_reconnect_failed'']"
    by blast+
  from every [of 1] every [of 4] every [of 10] last fields show ?thesis by simp
qed

end
